theory Spec2Isabelle
  imports Complex_Main "HOL-Library.Multiset"
begin

section \<open>ITQ similarity index: data model\<close>

text \<open>
  The development follows \<^verbatim>\<open>smqtk/similarity_index/lsh/itq.py\<close>. Arrays of floats are
  lists of reals (a matrix is the list of its rows), so rounding is abstracted away;
  Python integers are \<^typ>\<open>int\<close>, hash codes (non-negative) are \<^typ>\<open>nat\<close>.
  An exception is a value of type \<open>error\<close>; a method that mutates \<^verbatim>\<open>self\<close> returns
  the state it leaves behind together with its outcome.
\<close>

datatype error =
    AssertionError
  | ValueError string
  | TypeError
  | AttributeError
  | KeyError string
  | IOError
  | UnpicklingError
  | LinAlgError
  | SimilarityIndexStateLoadError
  | SimilarityIndexStateSaveError

type_synonym ndarray = "real list"
type_synonym matrix = "real list list"

record DescriptorElement =
  uuid :: nat
  vector :: ndarray

subsection \<open>Array operations used by the index\<close>

definition ncols :: "'a list list \<Rightarrow> nat" where
  "ncols m = (case m of [] \<Rightarrow> 0 | row # _ \<Rightarrow> length row)"

definition transpose_m :: "'a list list \<Rightarrow> 'a list list" where
  "transpose_m m = map (\<lambda>j. map (\<lambda>row. row ! j) m) [0..<ncols m]"

definition inner :: "ndarray \<Rightarrow> ndarray \<Rightarrow> real" where
  "inner a b = sum_list (map2 (*) a b)"

text \<open>\<^verbatim>\<open>numpy.dot\<close> of a vector with a matrix, and of two matrices.\<close>

definition dot_vm :: "ndarray \<Rightarrow> matrix \<Rightarrow> ndarray" where
  "dot_vm w m = map (inner w) (transpose_m m)"

definition dot :: "matrix \<Rightarrow> matrix \<Rightarrow> matrix" where
  "dot a b = map (\<lambda>row. dot_vm row b) a"

text \<open>
  Elementwise subtraction of two one-dimensional arrays, with numpy's broadcasting:
  equal lengths subtract pointwise, an operand of length one is stretched, and any
  other pair of lengths raises \<^verbatim>\<open>ValueError\<close>.
\<close>

definition subtract :: "ndarray \<Rightarrow> ndarray \<Rightarrow> error + ndarray" where
  "subtract a b =
     (if length a = length b then Inr (map2 (-) a b)
      else if length b = 1 then Inr (map (\<lambda>x. x - hd b) a)
      else if length a = 1 then Inr (map (\<lambda>y. hd a - y) b)
      else Inl (ValueError ''operands could not be broadcast together''))"

text \<open>\<^verbatim>\<open>numpy.mean(x, axis=0)\<close>: the column means of a non-empty matrix.\<close>

definition mean_axis0 :: "matrix \<Rightarrow> ndarray" where
  "mean_axis0 x = map (\<lambda>col. sum_list col / real (length x)) (transpose_m x)"

subsection \<open>Helpers of \<^verbatim>\<open>smqtk.utils\<close>\<close>

text \<open>
  Modelled from the spec: \<^verbatim>\<open>bit_utils.bit_vector_to_int\<close> is not among the sources. The
  specification says that bit index 0 is the most significant bit and that the bits are
  packed most-significant-first into a non-negative integer.
\<close>

definition bit_vector_to_int :: "nat list \<Rightarrow> nat" where
  "bit_vector_to_int v = foldl (\<lambda>c b. c * 2 + b) 0 v"

text \<open>
  Modelled from the spec: \<^verbatim>\<open>distance_functions.hamming_distance\<close> is not among the sources.
  The specification's glossary defines it as the number of differing bits of two codes.
\<close>

function hamming_distance :: "nat \<Rightarrow> nat \<Rightarrow> nat" where
  "hamming_distance a b =
     (if a = 0 \<and> b = 0 then 0
      else (if a mod 2 = b mod 2 then 0 else 1) + hamming_distance (a div 2) (b div 2))"
  by pat_completeness auto
termination
  by (relation "measure (\<lambda>(a, b). a + b)") (auto simp: add_less_le_mono add_le_less_mono)

declare hamming_distance.simps [simp del]

text \<open>
  The three real-valued metrics of \<^verbatim>\<open>smqtk.utils.distance_functions\<close> are not among the
  sources either; they are taken as parameters.
\<close>

record distance_functions =
  euclidean_distance :: "ndarray \<Rightarrow> ndarray \<Rightarrow> real"
  cosine_similarity :: "ndarray \<Rightarrow> ndarray \<Rightarrow> real"
  histogram_intersection_distance :: "ndarray \<Rightarrow> ndarray \<Rightarrow> real"

subsection \<open>The code index\<close>

text \<open>
  Modelled from the spec: \<^verbatim>\<open>MemoryCodeIndex\<close> is not among the sources. The specification
  describes a hash table from a code to the descriptors sharing it, with a bulk load, the
  distinct populated codes, the ordered bucket of a code and the total count. Buckets are
  kept in insertion order.
\<close>

type_synonym CodeIndex = "(nat \<times> DescriptorElement list) list"

fun add_descriptor :: "CodeIndex \<Rightarrow> nat \<times> DescriptorElement \<Rightarrow> CodeIndex" where
  "add_descriptor [] (c, d) = [(c, [d])]"
| "add_descriptor ((k, b) # ci) (c, d) =
     (if k = c then (k, b @ [d]) # ci else (k, b) # add_descriptor ci (c, d))"

definition add_many_descriptors ::
  "CodeIndex \<Rightarrow> (nat \<times> DescriptorElement) list \<Rightarrow> CodeIndex" where
  "add_many_descriptors ci ps = foldl add_descriptor ci ps"

definition codes :: "CodeIndex \<Rightarrow> nat list" where
  "codes ci = map fst ci"

definition get_descriptors :: "CodeIndex \<Rightarrow> nat \<Rightarrow> DescriptorElement list" where
  "get_descriptors ci c = (case map_of ci c of None \<Rightarrow> [] | Some b \<Rightarrow> b)"

definition ci_count :: "CodeIndex \<Rightarrow> nat" where
  "ci_count ci = sum_list (map (\<lambda>p. length (snd p)) ci)"

text \<open>What the specification requires of a populated index: codes are distinct and no bucket is empty.\<close>

definition ci_invar :: "CodeIndex \<Rightarrow> bool" where
  "ci_invar ci = (distinct (map fst ci) \<and> list_all (\<lambda>p. snd p \<noteq> []) ci)"

subsection \<open>The index object\<close>

record ITQSimilarityIndex =
  self_save_file :: string
  self_bit_len :: int
  self_itq_iter_num :: int
  self_rand_seed :: "int option"
  self_mean_vector :: "ndarray option"
  self_r :: "matrix option"
  self_index_factory :: "unit \<Rightarrow> CodeIndex"
  self_code_index :: "CodeIndex option"
  self_dist_method :: string
  self_dist_func :: "ndarray \<Rightarrow> ndarray \<Rightarrow> real"

definition get_dist_func ::
  "distance_functions \<Rightarrow> string \<Rightarrow> error + (ndarray \<Rightarrow> ndarray \<Rightarrow> real)" where
  "get_dist_func DF distance_method =
     (if distance_method = ''euclidean'' then Inr (euclidean_distance DF)
      else if distance_method = ''cosine'' then Inr (\<lambda>i j. 1 - cosine_similarity DF i j)
      else if distance_method = ''hik'' then Inr (histogram_intersection_distance DF)
      else Inl (ValueError ''Invalid distance method label.''))"

definition init ::
  "distance_functions \<Rightarrow> (unit \<Rightarrow> CodeIndex) \<Rightarrow> int \<Rightarrow> int \<Rightarrow> string \<Rightarrow> int option
     \<Rightarrow> error + ITQSimilarityIndex" where
  "init DF index_factory bit_length itq_iterations distance_method random_seed =
     (if \<not> bit_length > 0 then Inl AssertionError
      else if \<not> itq_iterations > 0 then Inl AssertionError
      else case get_dist_func DF distance_method of
             Inl e \<Rightarrow> Inl e
           | Inr f \<Rightarrow> Inr \<lparr> self_save_file = ''itq_index.pickle'',
                           self_bit_len = bit_length,
                           self_itq_iter_num = itq_iterations,
                           self_rand_seed = random_seed,
                           self_mean_vector = None,
                           self_r = None,
                           self_index_factory = index_factory,
                           self_code_index = None,
                           self_dist_method = distance_method,
                           self_dist_func = f \<rparr>)"

text \<open>
  \<^verbatim>\<open>count\<close> tests the truth value of the code index: \<^verbatim>\<open>None\<close> is false, and an index
  object is false exactly when it reports length zero.
\<close>

definition count :: "ITQSimilarityIndex \<Rightarrow> int" where
  "count s =
     (case self_code_index s of
        None \<Rightarrow> 0
      | Some ci \<Rightarrow> if ci_count ci \<noteq> 0 then int (ci_count ci) else 0)"

subsection \<open>Hashing a descriptor\<close>

text \<open>
  \<^verbatim>\<open>get_small_code\<close> has no guard of its own: an absent mean vector or rotation makes
  the arithmetic on \<^verbatim>\<open>None\<close> raise \<^verbatim>\<open>TypeError\<close>, and a vector whose length does not
  match the rows of the rotation makes \<^verbatim>\<open>numpy.dot\<close> raise \<^verbatim>\<open>ValueError\<close>.
\<close>

definition get_small_code ::
  "ITQSimilarityIndex \<Rightarrow> DescriptorElement \<Rightarrow> error + (ndarray \<times> nat list \<times> nat)" where
  "get_small_code s descriptor =
     (let v = vector descriptor in
      case self_mean_vector s of
        None \<Rightarrow> Inl TypeError
      | Some mu \<Rightarrow>
          (case subtract v mu of
             Inl e \<Rightarrow> Inl e
           | Inr w \<Rightarrow>
               (case self_r s of
                  None \<Rightarrow> Inl TypeError
                | Some rot \<Rightarrow>
                    if length w \<noteq> length rot then Inl (ValueError ''shapes not aligned'')
                    else
                      let z = dot_vm w rot;
                          b = map (\<lambda>x. if x \<ge> 0 then 1 else 0) z
                      in Inr (v, b, bit_vector_to_int b))))"

subsection \<open>The numerical library\<close>

text \<open>
  \<^verbatim>\<open>numpy\<close> is not part of the repository. Its covariance, eigen-solver, singular value
  decomposition and random generator are parameters of the model. The generator's global
  state has type \<open>'g\<close>: seeding replaces it, drawing a matrix advances it. The two
  decompositions can raise \<^verbatim>\<open>LinAlgError\<close>.
\<close>

record 'g numpy =
  np_random_seed :: "int \<Rightarrow> 'g"
  np_random_randn :: "nat \<Rightarrow> nat \<Rightarrow> 'g \<Rightarrow> matrix \<times> 'g"
  np_cov :: "matrix \<Rightarrow> matrix"
  np_linalg_eig :: "matrix \<Rightarrow> error + (ndarray \<times> matrix)"
  np_linalg_svd :: "matrix \<Rightarrow> error + (matrix \<times> ndarray \<times> matrix)"

text \<open>
  The shapes numpy documents for these operations: the covariance of \<open>D\<close> variables has
  \<open>D\<close> rows, the eigen-solver of an \<open>n\<close> by \<open>n\<close> matrix returns \<open>n\<close> eigenvalues and an
  \<open>n\<close> by \<open>n\<close> matrix of eigenvectors, the decomposition of an \<open>m\<close> by \<open>n\<close> matrix returns
  square factors of sizes \<open>m\<close> and \<open>n\<close>, and \<^verbatim>\<open>randn(r, c)\<close> draws an \<open>r\<close> by \<open>c\<close> matrix.
\<close>

definition is_matrix :: "nat \<Rightarrow> nat \<Rightarrow> 'a list list \<Rightarrow> bool" where
  "is_matrix r c m = (length m = r \<and> list_all (\<lambda>row. length row = c) m)"

definition numpy_shapes :: "'g numpy \<Rightarrow> bool" where
  "numpy_shapes L =
     ((\<forall>m. length (np_cov L m) = length m)
    \<and> (\<forall>c l pc. np_linalg_eig L c = Inr (l, pc)
          \<longrightarrow> length l = length c \<and> is_matrix (length c) (length c) pc)
    \<and> (\<forall>m u sv vh. np_linalg_svd L m = Inr (u, sv, vh)
          \<longrightarrow> is_matrix (length m) (length m) u \<and> is_matrix (ncols m) (ncols m) vh)
    \<and> (\<forall>r c g. is_matrix r c (fst (np_random_randn L r c g))))"

subsection \<open>Training\<close>

text \<open>The loop of \<^verbatim>\<open>_find_itq_rotation\<close>: one Procrustes step per iteration.\<close>

fun itq_loop :: "'g numpy \<Rightarrow> matrix \<Rightarrow> nat \<Rightarrow> matrix \<Rightarrow> error + matrix" where
  "itq_loop L v 0 rot = Inr rot"
| "itq_loop L v (Suc k) rot =
     (let z = dot v rot;
          ux = map (map (\<lambda>x. if x \<ge> 0 then 1 else - 1)) z;
          c = dot (transpose_m ux) v
      in case np_linalg_svd L c of
           Inl e \<Rightarrow> Inl e
         | Inr (ub, sigma, ua) \<Rightarrow> itq_loop L v k (dot ua (transpose_m ub)))"

definition find_itq_rotation ::
  "'g numpy \<Rightarrow> matrix \<Rightarrow> int \<Rightarrow> 'g \<Rightarrow> (error + (nat list list \<times> matrix)) \<times> 'g" where
  "find_itq_rotation L v n_iter g =
     (let bit = ncols v;
          (r0, g') = np_random_randn L bit bit g
      in case np_linalg_svd L r0 of
           Inl e \<Rightarrow> (Inl e, g')
         | Inr (u11, s2, v2) \<Rightarrow>
             (case itq_loop L v (nat n_iter) (map (take bit) u11) of
                Inl e \<Rightarrow> (Inl e, g')
              | Inr rot \<Rightarrow>
                  let z = dot v rot;
                      b = map (map (\<lambda>x. if x \<ge> 0 then 1 else 0)) z
                  in (Inr (b, rot), g')))"

text \<open>
  \<^verbatim>\<open>sorted(..., key=..., reverse=1)\<close>: descending by key, elements with equal keys
  keeping their original order.
\<close>

definition sorted_reverse :: "('a \<Rightarrow> real) \<Rightarrow> 'a list \<Rightarrow> 'a list" where
  "sorted_reverse key xs = rev (sort_key key (rev xs))"

text \<open>
  The guard \<^verbatim>\<open>if self._rand_seed:\<close> of \<^verbatim>\<open>build_index\<close> tests the truth value of
  the seed: \<^verbatim>\<open>None\<close> and \<^verbatim>\<open>0\<close> are both false.
\<close>

definition seed_generator :: "'g numpy \<Rightarrow> int option \<Rightarrow> 'g \<Rightarrow> 'g" where
  "seed_generator L seed g =
     (case seed of
        None \<Rightarrow> g
      | Some k \<Rightarrow> if k \<noteq> 0 then np_random_seed L k else g)"

text \<open>
  \<^verbatim>\<open>build_index\<close> returns its outcome, the index object as the call leaves it and the
  generator state. The fields are assigned in the order of the source: the mean vector
  before the decompositions, the rotation after the ITQ search, the code index last.
  The descriptors are taken to have vectors of one common dimension, as the source's
  parameter types say; what numpy does with a ragged collection is not modelled. A factory
  is a pure producer: each call yields an independent index value.
\<close>

definition build_index ::
  "'g numpy \<Rightarrow> ITQSimilarityIndex \<Rightarrow> 'g \<Rightarrow> DescriptorElement list
     \<Rightarrow> (error + unit) \<times> ITQSimilarityIndex \<times> 'g" where
  "build_index L s g descriptors =
     (let g1 = seed_generator L (self_rand_seed s) g;
          descr_cache = descriptors;
          x = map vector descriptors
      in if x = [] then (Inl (ValueError ''No descriptors given!''), s, g1)
         else
           let mu = mean_axis0 x;
               s1 = s\<lparr>self_mean_vector := Some mu\<rparr>;
               x' = map (\<lambda>row. map2 (-) row mu) x;
               c = np_cov L (transpose_m x')
           in case np_linalg_eig L c of
                Inl e \<Rightarrow> (Inl e, s1, g1)
              | Inr (l, pc) \<Rightarrow>
                  let top_pairs = take (nat (self_bit_len s1))
                                    (sorted_reverse fst (zip l (transpose_m pc)));
                      pc_top = transpose_m (map snd top_pairs);
                      xx = dot x' pc_top
                  in case find_itq_rotation L xx (self_itq_iter_num s1) g1 of
                       (Inl e, g2) \<Rightarrow> (Inl e, s1, g2)
                     | (Inr (c, rot), g2) \<Rightarrow>
                         let s2 = s1\<lparr>self_r := Some rot\<rparr>;
                             s3 = s2\<lparr>self_r := Some (dot pc_top rot)\<rparr>;
                             s4 = s3\<lparr>self_code_index := Some (self_index_factory s3 ())\<rparr>;
                             ci = add_many_descriptors (self_index_factory s3 ())
                                    (map (\<lambda>i. (bit_vector_to_int (c ! i), descr_cache ! i))
                                       [0..<length c])
                         in (Inr (), s4\<lparr>self_code_index := Some ci\<rparr>, g2))"

subsection \<open>Nearest neighbours\<close>

text \<open>
  \<^verbatim>\<open>heapq.nsmallest(n, iterable, key)\<close> is documented as equivalent to
  \<^verbatim>\<open>sorted(iterable, key=key)[:n]\<close>; a count that is not positive gives the empty list.
\<close>

definition nsmallest :: "int \<Rightarrow> 'a list \<Rightarrow> ('a \<Rightarrow> nat) \<Rightarrow> 'a list" where
  "nsmallest n xs key = take (nat n) (sort_key key xs)"

text \<open>The loop of \<^verbatim>\<open>nn\<close> that gathers buckets until enough candidates are collected.\<close>

fun collect_neighbors ::
  "CodeIndex \<Rightarrow> int \<Rightarrow> DescriptorElement list \<Rightarrow> nat list \<Rightarrow> DescriptorElement list" where
  "collect_neighbors ci termination_count neighbors [] = neighbors"
| "collect_neighbors ci termination_count neighbors (nc # near_codes) =
     (let neighbors' = neighbors @ get_descriptors ci nc
      in if int (length neighbors') \<ge> termination_count then neighbors'
         else collect_neighbors ci termination_count neighbors' near_codes)"

text \<open>The slice \<^verbatim>\<open>xs[:n]\<close>; a negative bound counts from the end.\<close>

definition slice_to :: "int \<Rightarrow> 'a list \<Rightarrow> 'a list" where
  "slice_to n xs = (if n \<ge> 0 then take (nat n) xs else take (length xs - nat (- n)) xs)"

definition near_codes_of :: "CodeIndex \<Rightarrow> nat \<Rightarrow> int \<Rightarrow> nat list" where
  "near_codes_of ci d_sc n = nsmallest n (codes ci) (\<lambda>e. hamming_distance d_sc e)"

text \<open>
  The body of \<^verbatim>\<open>nn\<close> in two parts: the candidates gathered from the nearest codes,
  and their exact ranking. Unpacking \<^verbatim>\<open>zip(*ordered)\<close> into two names raises
  \<^verbatim>\<open>ValueError\<close> when nothing was gathered.
\<close>

definition nn_neighbors ::
  "ITQSimilarityIndex \<Rightarrow> CodeIndex \<Rightarrow> nat \<Rightarrow> int \<Rightarrow> DescriptorElement list" where
  "nn_neighbors s ci d_sc n =
     (let near_codes = near_codes_of ci d_sc n;
          termination_count = min n (count s)
      in collect_neighbors ci termination_count [] near_codes)"

definition rank_neighbors ::
  "ITQSimilarityIndex \<Rightarrow> ndarray \<Rightarrow> int \<Rightarrow> DescriptorElement list
     \<Rightarrow> error + (DescriptorElement list \<times> real list)" where
  "rank_neighbors s d_vec n neighbors =
     (let distances = map (\<lambda>d_elem. self_dist_func s d_vec (vector d_elem)) neighbors;
          ordered = sort_key fst (zip distances neighbors)
      in if ordered = [] then Inl (ValueError ''need more than 0 values to unpack'')
         else Inr (slice_to n (map snd ordered), slice_to n (map fst ordered)))"

definition nn ::
  "ITQSimilarityIndex \<Rightarrow> DescriptorElement \<Rightarrow> int
     \<Rightarrow> error + (DescriptorElement list \<times> real list)" where
  "nn s d n =
     (case get_small_code s d of
        Inl e \<Rightarrow> Inl e
      | Inr (d_vec, _, d_sc) \<Rightarrow>
          (case self_code_index s of
             None \<Rightarrow> Inl AttributeError
           | Some ci \<Rightarrow> rank_neighbors s d_vec n (nn_neighbors s ci d_sc n)))"

subsection \<open>Loading a saved state\<close>

text \<open>
  The pickled dictionary: a key that is missing is \<open>None\<close>. A path of the file system
  holds a directory, a file that cannot be opened, a file that is not a pickle, or a
  pickled dictionary.
\<close>

record pickled_state =
  p_bit_len :: "int option"
  p_itq_iter :: "int option"
  p_rand_seed :: "int option option"
  p_mean_vector :: "ndarray option option"
  p_rotation :: "matrix option option"
  p_code_index :: "CodeIndex option option"
  p_distance_method :: "string option"

datatype file_entry = Directory | Unreadable | Undecodable | Pickle pickled_state

type_synonym filesystem = "string \<Rightarrow> file_entry option"

text \<open>\<^verbatim>\<open>os.path.join\<close> of a directory and a relative file name.\<close>

definition osp_join :: "string \<Rightarrow> string \<Rightarrow> string" where
  "osp_join a b =
     (if a = [] then b else if last a = CHR ''/'' then a @ b else a @ ''/'' @ b)"

definition osp_isfile :: "filesystem \<Rightarrow> string \<Rightarrow> bool" where
  "osp_isfile fs path = (case fs path of None \<Rightarrow> False | Some Directory \<Rightarrow> False | Some _ \<Rightarrow> True)"

text \<open>The seven assignments of \<^verbatim>\<open>load_index\<close>, in order; a missing key raises midway.\<close>

definition install_state ::
  "distance_functions \<Rightarrow> ITQSimilarityIndex \<Rightarrow> pickled_state
     \<Rightarrow> (error + unit) \<times> ITQSimilarityIndex" where
  "install_state DF s state =
     (case p_bit_len state of
        None \<Rightarrow> (Inl (KeyError ''bit_len''), s)
      | Some v1 \<Rightarrow>
     let s1 = s\<lparr>self_bit_len := v1\<rparr> in
     case p_itq_iter state of
        None \<Rightarrow> (Inl (KeyError ''itq_iter''), s1)
      | Some v2 \<Rightarrow>
     let s2 = s1\<lparr>self_itq_iter_num := v2\<rparr> in
     case p_rand_seed state of
        None \<Rightarrow> (Inl (KeyError ''rand_seed''), s2)
      | Some v3 \<Rightarrow>
     let s3 = s2\<lparr>self_rand_seed := v3\<rparr> in
     case p_mean_vector state of
        None \<Rightarrow> (Inl (KeyError ''mean_vector''), s3)
      | Some v4 \<Rightarrow>
     let s4 = s3\<lparr>self_mean_vector := v4\<rparr> in
     case p_rotation state of
        None \<Rightarrow> (Inl (KeyError ''rotation''), s4)
      | Some v5 \<Rightarrow>
     let s5 = s4\<lparr>self_r := v5\<rparr> in
     case p_code_index state of
        None \<Rightarrow> (Inl (KeyError ''code_index''), s5)
      | Some v6 \<Rightarrow>
     let s6 = s5\<lparr>self_code_index := v6\<rparr> in
     case p_distance_method state of
        None \<Rightarrow> (Inl (KeyError ''distance_method''), s6)
      | Some v7 \<Rightarrow>
     let s7 = s6\<lparr>self_dist_method := v7\<rparr> in
     case get_dist_func DF (self_dist_method s7) of
        Inl e \<Rightarrow> (Inl e, s7)
      | Inr f \<Rightarrow> (Inr (), s7\<lparr>self_dist_func := f\<rparr>))"

definition load_index ::
  "distance_functions \<Rightarrow> filesystem \<Rightarrow> ITQSimilarityIndex \<Rightarrow> string
     \<Rightarrow> (error + unit) \<times> ITQSimilarityIndex" where
  "load_index DF fs s dir_path =
     (let save_file = osp_join dir_path (self_save_file s)
      in if \<not> osp_isfile fs save_file then (Inl SimilarityIndexStateLoadError, s)
         else case fs save_file of
                Some (Pickle state) \<Rightarrow> install_state DF s state
              | Some Undecodable \<Rightarrow> (Inl UnpicklingError, s)
              | _ \<Rightarrow> (Inl IOError, s))"

section \<open>Concrete instances used for evaluation\<close>

text \<open>
  A small instance of the numerical library, exact on the inputs of the examples below:
  the covariance is computed as numpy does for two or more observations, the eigen-solver
  refuses anything that is not at least a 2 by 2 matrix (numpy returns a 0-dimensional
  covariance for one-dimensional descriptors and its eigen-solver then raises
  \<^verbatim>\<open>LinAlgError\<close>) and otherwise answers as for a diagonal matrix, the decomposition
  answers for a square diagonal matrix whose entries do not grow in magnitude and puts
  their signs into the left factor, and the generator is a counter that draws the identity
  matrix on even and its negative on odd states.
\<close>

definition cov_rows :: "matrix \<Rightarrow> matrix" where
  "cov_rows m =
     (let n = ncols m;
          centred = map (\<lambda>row. map (\<lambda>x. x - sum_list row / real n) row) m
      in map (\<lambda>a. map (\<lambda>b. inner a b / (real n - 1)) centred) centred)"

definition small_numpy :: "nat numpy" where
  "small_numpy =
     \<lparr> np_random_seed = (\<lambda>k. nat \<bar>k\<bar>),
       np_random_randn = (\<lambda>rows cols g.
          (map (\<lambda>i. map (\<lambda>j. if i = j then (if even g then 1 else - 1) else 0) [0..<cols])
             [0..<rows], Suc g)),
       np_cov = cov_rows,
       np_linalg_eig = (\<lambda>c.
          if length c < 2 then Inl LinAlgError
          else Inr (map (\<lambda>i. c ! i ! i) [0..<length c],
                    map (\<lambda>i. map (\<lambda>j. if i = j then 1 else 0) [0..<length c]) [0..<length c])),
       np_linalg_svd = (\<lambda>m.
          if m \<noteq> [] \<and> is_matrix (length m) (length m) m
             \<and> list_all (\<lambda>i. list_all (\<lambda>j. i = j \<or> m ! i ! j = 0) [0..<length m])
                   [0..<length m]
             \<and> sorted (rev (map (\<lambda>i. \<bar>m ! i ! i\<bar>) [0..<length m]))
          then Inr (map (\<lambda>i. map (\<lambda>j. if i = j then (if m ! i ! i \<ge> 0 then 1 else - 1) else 0)
                            [0..<length m]) [0..<length m],
                    map (\<lambda>i. \<bar>m ! i ! i\<bar>) [0..<length m],
                    map (\<lambda>i. map (\<lambda>j. if i = j then 1 else 0) [0..<length m]) [0..<length m])
          else Inl LinAlgError) \<rparr>"

definition hik_distance :: "ndarray \<Rightarrow> ndarray \<Rightarrow> real" where
  "hik_distance a b = 1 - sum_list (map2 min a b)"

definition metrics :: distance_functions where
  "metrics =
     \<lparr> euclidean_distance = (\<lambda>a b. sqrt (sum_list (map2 (\<lambda>x y. (x - y)\<^sup>2) a b))),
       cosine_similarity = (\<lambda>a b. inner a b / (sqrt (inner a a) * sqrt (inner b b))),
       histogram_intersection_distance = hik_distance \<rparr>"

definition descr :: "nat \<Rightarrow> ndarray \<Rightarrow> DescriptorElement" where
  "descr i v = \<lparr> uuid = i, vector = v \<rparr>"

definition fresh_index :: "int \<Rightarrow> int option \<Rightarrow> ITQSimilarityIndex" where
  "fresh_index bit_length random_seed =
     \<lparr> self_save_file = ''itq_index.pickle'',
       self_bit_len = bit_length,
       self_itq_iter_num = 2,
       self_rand_seed = random_seed,
       self_mean_vector = None,
       self_r = None,
       self_index_factory = (\<lambda>_. []),
       self_code_index = None,
       self_dist_method = ''hik'',
       self_dist_func = hik_distance \<rparr>"

text \<open>Two small corpora, of two-dimensional and of one-dimensional descriptors.\<close>

definition corpus2 :: "DescriptorElement list" where
  "corpus2 = [descr 0 [0, 0], descr 1 [2, 0]]"

definition corpus1 :: "DescriptorElement list" where
  "corpus1 = [descr 0 [0], descr 1 [2]]"

text \<open>A trained index with two-bit codes over two-dimensional descriptors, and the same
  index with an empty code index.\<close>

definition hashed_index :: ITQSimilarityIndex where
  "hashed_index = (fresh_index 2 None)\<lparr> self_mean_vector := Some [1, 0],
      self_r := Some [[1, - 1], [0, 1]],
      self_code_index := Some [(2, [descr 0 [3, 1]]), (1, [descr 1 [0, 2], descr 2 [0, 3]])] \<rparr>"

definition emptied_index :: ITQSimilarityIndex where
  "emptied_index = hashed_index\<lparr> self_code_index := Some [] \<rparr>"

text \<open>A file system whose only entry is a saved state with bit length 8, a
  three-dimensional mean vector and a 2 by 1 rotation.\<close>

definition mismatched_state :: pickled_state where
  "mismatched_state =
     \<lparr> p_bit_len = Some 8, p_itq_iter = Some 2, p_rand_seed = Some None,
       p_mean_vector = Some (Some [1, 0, 0]), p_rotation = Some (Some [[1], [0]]),
       p_code_index = Some (Some []), p_distance_method = Some ''hik'' \<rparr>"

definition saved_fs :: filesystem where
  "saved_fs path = (if path = ''/idx/itq_index.pickle'' then Some (Pickle mismatched_state) else None)"

text \<open>What training with bit length 8 and seed 5 leaves behind over the two-dimensional
  corpus.\<close>

definition wide_index :: ITQSimilarityIndex where
  "wide_index = (fresh_index 8 (Some 5))\<lparr> self_mean_vector := Some [1, 0],
      self_r := Some [[- 1, 0], [0, 1]],
      self_code_index := Some [(3, [descr 0 [0, 0]]), (1, [descr 1 [2, 0]])] \<rparr>"

text \<open>What the first training run with seed 0 leaves behind on a fresh one-bit index.\<close>

definition seed0_first_run :: ITQSimilarityIndex where
  "seed0_first_run = (fresh_index 1 (Some 0))\<lparr> self_mean_vector := Some [1, 0],
      self_r := Some [[1], [0]],
      self_code_index := Some [(0, [descr 0 [0, 0]]), (1, [descr 1 [2, 0]])] \<rparr>"

section \<open>Hashing\<close>

subsection \<open>Matrix product and bit packing, index by index\<close>

lemma ncols_uniform:
  "rot \<noteq> [] \<Longrightarrow> list_all (\<lambda>row. length row = b) rot \<Longrightarrow> ncols rot = b"
  by (cases rot) (simp_all add: ncols_def)

lemma inner_sum:
  "length a = length b \<Longrightarrow> inner a b = (\<Sum>i<length a. a ! i * b ! i)"
proof (induction a arbitrary: b)
  case Nil
  then show ?case by (simp add: inner_def)
next
  case (Cons x xs)
  then obtain y ys where b: "b = y # ys" and l: "length xs = length ys"
    by (cases b) auto
  from Cons.IH [OF l] show ?case
    by (simp add: b inner_def sum.lessThan_Suc_shift del: sum.lessThan_Suc)
qed

lemma dot_vm_nth:
  assumes "rot \<noteq> []" "list_all (\<lambda>row. length row = b) rot" "length w = length rot"
  shows "dot_vm w rot = map (\<lambda>j. \<Sum>i<length rot. w ! i * rot ! i ! j) [0..<b]"
  using assms
  by (simp add: dot_vm_def transpose_m_def ncols_uniform inner_sum)

lemma foldl_pack:
  "foldl (\<lambda>c b. c * 2 + b) (acc::nat) v
     = acc * 2 ^ length v + (\<Sum>j<length v. v ! j * 2 ^ (length v - 1 - j))"
proof (induction v arbitrary: acc)
  case Nil
  then show ?case by simp
next
  case (Cons x xs)
  have "foldl (\<lambda>c b. c * 2 + b) acc (x # xs)
      = (acc * 2 + x) * 2 ^ length xs + (\<Sum>j<length xs. xs ! j * 2 ^ (length xs - 1 - j))"
    by (simp add: Cons.IH)
  also have "\<dots> = acc * 2 ^ length (x # xs)
      + (\<Sum>j<length (x # xs). (x # xs) ! j * 2 ^ (length (x # xs) - 1 - j))"
    by (simp add: sum.lessThan_Suc_shift algebra_simps del: sum.lessThan_Suc)
  finally show ?case .
qed

lemma foldl_pack_bound:
  "list_all (\<lambda>b. b \<le> 1) v \<Longrightarrow>
     Suc (foldl (\<lambda>c b. c * 2 + b) acc v) \<le> Suc acc * 2 ^ length v"
proof (induction v arbitrary: acc)
  case Nil
  then show ?case by simp
next
  case (Cons x xs)
  then have x: "x \<le> 1" and xs: "list_all (\<lambda>b. b \<le> 1) xs" by simp_all
  have "Suc (foldl (\<lambda>c b. c * 2 + b) (acc * 2 + x) xs) \<le> Suc (acc * 2 + x) * 2 ^ length xs"
    by (rule Cons.IH [OF xs])
  also have "\<dots> \<le> (Suc acc * 2) * 2 ^ length xs"
    using x by (intro mult_le_mono1) simp
  finally show ?case by (simp add: mult.assoc)
qed

lemma bit_vector_to_int_sum:
  "bit_vector_to_int v = (\<Sum>j<length v. v ! j * 2 ^ (length v - 1 - j))"
  by (simp add: bit_vector_to_int_def foldl_pack)

lemma bit_vector_to_int_less:
  "list_all (\<lambda>b. b \<le> 1) v \<Longrightarrow> bit_vector_to_int v < 2 ^ length v"
  using foldl_pack_bound [of v 0] by (simp add: bit_vector_to_int_def)

text \<open>
  What \<^verbatim>\<open>get_small_code\<close> returns on an index whose mean vector has dimension \<open>D\<close> and
  whose rotation is \<open>D\<close> by \<open>k\<close>, whatever the configured bit length is.
\<close>

lemma get_small_code_shape:
  assumes "self_mean_vector s = Some mu" and "self_r s = Some rot"
    and "0 < D" and "length mu = D" and "length rot = D"
    and "list_all (\<lambda>row. length row = k) rot"
    and "length (vector d) = D"
  shows "\<exists>bits code.
      get_small_code s d = Inr (vector d, bits, code)
    \<and> bits = map (\<lambda>j. if 0 \<le> (\<Sum>i<D. (vector d ! i - mu ! i) * rot ! i ! j) then 1 else 0) [0..<k]
    \<and> code = (\<Sum>j<k. bits ! j * 2 ^ (k - 1 - j))
    \<and> code < 2 ^ k"
proof -
  let ?w = "map2 (-) (vector d) mu"
  let ?bits = "map (\<lambda>x. if x \<ge> 0 then 1 else 0 :: nat) (dot_vm ?w rot)"
  have ne: "rot \<noteq> []" using assms by auto
  have lw: "length ?w = length rot" using assms by simp
  have z: "dot_vm ?w rot = map (\<lambda>j. \<Sum>i<D. (vector d ! i - mu ! i) * rot ! i ! j) [0..<k]"
    using dot_vm_nth [OF ne assms(6) lw] assms by simp
  have g: "get_small_code s d = Inr (vector d, ?bits, bit_vector_to_int ?bits)"
    using assms by (simp add: get_small_code_def subtract_def Let_def)
  have lb: "length ?bits = k" by (simp add: z)
  have le1: "list_all (\<lambda>b. b \<le> 1) ?bits" by (auto simp: list_all_iff)
  have bits: "?bits = map (\<lambda>j. if 0 \<le> (\<Sum>i<D. (vector d ! i - mu ! i) * rot ! i ! j) then 1 else 0) [0..<k]"
    by (simp add: z o_def)
  have c1: "bit_vector_to_int ?bits = (\<Sum>j<k. ?bits ! j * 2 ^ (k - 1 - j))"
    using bit_vector_to_int_sum [of ?bits] by (simp only: lb)
  have c2: "bit_vector_to_int ?bits < 2 ^ k"
    using bit_vector_to_int_less [OF le1] by (simp only: lb)
  show ?thesis
    apply (rule exI [of _ ?bits])
    apply (rule exI [of _ "bit_vector_to_int ?bits"])
    apply (intro conjI)
       apply (rule g)
      apply (rule bits)
     apply (rule c1)
    apply (rule c2)
    done
qed

section \<open>Nearest neighbours\<close>

lemma collect_neighbors_prefix:
  "\<exists>m\<le>length cs.
      collect_neighbors ci tc acc cs = acc @ concat (map (get_descriptors ci) (take m cs))
    \<and> (m = length cs \<or> tc \<le> int (length (acc @ concat (map (get_descriptors ci) (take m cs)))))
    \<and> (\<forall>j. 0 < j \<and> j < m \<longrightarrow>
           int (length (acc @ concat (map (get_descriptors ci) (take j cs)))) < tc)
    \<and> (cs \<noteq> [] \<longrightarrow> 0 < m)"
proof (induction cs arbitrary: acc)
  case Nil
  then show ?case by simp
next
  case (Cons nc rest)
  let ?acc' = "acc @ get_descriptors ci nc"
  show ?case
  proof (cases "tc \<le> int (length ?acc')")
    case True
    then show ?thesis
      by (intro exI [of _ 1]) simp
  next
    case False
    from Cons.IH [of ?acc'] obtain m where m: "m \<le> length rest"
      and eq: "collect_neighbors ci tc ?acc' rest
                 = ?acc' @ concat (map (get_descriptors ci) (take m rest))"
      and stop: "m = length rest
                 \<or> tc \<le> int (length (?acc' @ concat (map (get_descriptors ci) (take m rest))))"
      and before: "\<And>j. 0 < j \<Longrightarrow> j < m \<Longrightarrow>
                 int (length (?acc' @ concat (map (get_descriptors ci) (take j rest)))) < tc"
      by blast
    have b': "int (length (acc @ concat (map (get_descriptors ci) (take j (nc # rest))))) < tc"
      if "0 < j" "j < Suc m" for j
    proof (cases j)
      case 0
      with that show ?thesis by simp
    next
      case (Suc j')
      show ?thesis
      proof (cases "j' = 0")
        case True
        with False Suc show ?thesis by simp
      next
        case F: False
        with before [of j'] that Suc show ?thesis by simp
      qed
    qed
    show ?thesis
      apply (rule exI [of _ "Suc m"])
      using m eq stop False b' by (simp add: Let_def)
  qed
qed

lemma nsmallest_length: "length (nsmallest n xs key) = min (nat n) (length xs)"
  by (simp add: nsmallest_def)

lemma nsmallest_sorted: "sorted (map key (nsmallest n xs key))"
  by (simp add: nsmallest_def sorted_wrt_take flip: take_map)

lemma nsmallest_split:
  "\<exists>rest. mset (nsmallest n xs key @ rest) = mset xs
         \<and> (\<forall>a\<in>set (nsmallest n xs key). \<forall>b\<in>set rest. key a \<le> key b)"
proof -
  let ?ys = "sort_key key xs"
  have s: "sorted (map key (take (nat n) ?ys @ drop (nat n) ?ys))" by simp
  have "\<forall>a\<in>set (take (nat n) ?ys). \<forall>b\<in>set (drop (nat n) ?ys). key a \<le> key b"
    using s unfolding map_append sorted_append by auto
  moreover have "mset (take (nat n) ?ys @ drop (nat n) ?ys) = mset xs" by simp
  ultimately show ?thesis unfolding nsmallest_def by blast
qed


text \<open>
  C6. Within a call \<^verbatim>\<open>nn(d, n)\<close> on a trained index (the probe hashes to \<open>d_sc\<close> and a
  code index is installed), the candidate codes are \<open>min n K\<close> of the \<open>K\<close> codes of
  \<^verbatim>\<open>codes()\<close>, in ascending Hamming distance to the probe's code, and no code left out is
  nearer than a selected one. The candidates are the buckets of the first \<open>m\<close> selected codes
  in that order, where accumulation ends at the first bucket after which the number of
  candidates reaches \<open>min(n, count())\<close>, or with the last selected code; the result of
  \<^verbatim>\<open>nn\<close> is the ranking of exactly these candidates.
\<close>

theorem nn_candidate_selection:
  assumes "get_small_code s d = Inr (d_vec, bv, d_sc)"
    and "self_code_index s = Some ci"
  shows "length (near_codes_of ci d_sc n) = min (nat n) (length (codes ci))
    \<and> sorted (map (hamming_distance d_sc) (near_codes_of ci d_sc n))
    \<and> (\<exists>rest. mset (near_codes_of ci d_sc n @ rest) = mset (codes ci)
           \<and> (\<forall>a\<in>set (near_codes_of ci d_sc n). \<forall>b\<in>set rest.
                 hamming_distance d_sc a \<le> hamming_distance d_sc b))
    \<and> (\<exists>m\<le>length (near_codes_of ci d_sc n).
           nn_neighbors s ci d_sc n
             = concat (map (get_descriptors ci) (take m (near_codes_of ci d_sc n)))
         \<and> (m = length (near_codes_of ci d_sc n)
              \<or> min n (count s) \<le> int (length (nn_neighbors s ci d_sc n)))
         \<and> (\<forall>j. 0 < j \<and> j < m \<longrightarrow>
               int (length (concat (map (get_descriptors ci) (take j (near_codes_of ci d_sc n)))))
                 < min n (count s))
         \<and> (near_codes_of ci d_sc n \<noteq> [] \<longrightarrow> 0 < m))
    \<and> nn s d n = rank_neighbors s d_vec n (nn_neighbors s ci d_sc n)"
proof -
  let ?near = "near_codes_of ci d_sc n"
  have 1: "length ?near = min (nat n) (length (codes ci))"
    by (simp add: near_codes_of_def nsmallest_length)
  have 2: "sorted (map (hamming_distance d_sc) ?near)"
    unfolding near_codes_of_def by (rule nsmallest_sorted)
  have 3: "\<exists>rest. mset (?near @ rest) = mset (codes ci)
           \<and> (\<forall>a\<in>set ?near. \<forall>b\<in>set rest. hamming_distance d_sc a \<le> hamming_distance d_sc b)"
    unfolding near_codes_of_def by (rule nsmallest_split)
  from collect_neighbors_prefix [of ?near ci "min n (count s)" "[]"]
  obtain m where m: "m \<le> length ?near"
    and eq: "collect_neighbors ci (min n (count s)) [] ?near
               = concat (map (get_descriptors ci) (take m ?near))"
    and stop: "m = length ?near
               \<or> min n (count s) \<le> int (length (concat (map (get_descriptors ci) (take m ?near))))"
    and before: "\<forall>j. 0 < j \<and> j < m \<longrightarrow>
               int (length (concat (map (get_descriptors ci) (take j ?near)))) < min n (count s)"
    and pos: "?near \<noteq> [] \<longrightarrow> 0 < m"
    by auto
  have 4: "\<exists>m\<le>length ?near.
           nn_neighbors s ci d_sc n = concat (map (get_descriptors ci) (take m ?near))
         \<and> (m = length ?near \<or> min n (count s) \<le> int (length (nn_neighbors s ci d_sc n)))
         \<and> (\<forall>j. 0 < j \<and> j < m \<longrightarrow>
               int (length (concat (map (get_descriptors ci) (take j ?near)))) < min n (count s))
         \<and> (?near \<noteq> [] \<longrightarrow> 0 < m)"
    apply (rule exI [of _ m])
    using m eq stop before pos by (simp add: nn_neighbors_def Let_def)
  have 5: "nn s d n = rank_neighbors s d_vec n (nn_neighbors s ci d_sc n)"
    using assms by (simp add: nn_def)
  from 1 2 3 4 5 show ?thesis by blast
qed


lemma get_descriptors_Cons:
  "get_descriptors ((k, b) # ci) c = (if c = k then b else get_descriptors ci c)"
  by (simp add: get_descriptors_def)

lemma get_descriptors_nonempty:
  "ci_invar ci \<Longrightarrow> c \<in> set (codes ci) \<Longrightarrow> get_descriptors ci c \<noteq> []"
proof (induction ci)
  case Nil
  then show ?case by (simp add: codes_def)
next
  case (Cons p ci)
  obtain k b where p: "p = (k, b)" by (cases p)
  from Cons.prems have inv: "ci_invar ci" and b: "b \<noteq> []"
    by (simp_all add: ci_invar_def p)
  show ?case
  proof (cases "c = k")
    case True
    with b show ?thesis by (simp add: p get_descriptors_Cons)
  next
    case False
    with Cons.prems have "c \<in> set (codes ci)" by (simp add: codes_def p)
    with Cons.IH [OF inv] False show ?thesis by (simp add: p get_descriptors_Cons)
  qed
qed

lemma bucket_sizes_sum:
  "distinct (map fst ci) \<Longrightarrow>
     sum_list (map (\<lambda>c. length (get_descriptors ci c)) (codes ci)) = ci_count ci"
proof (induction ci)
  case Nil
  then show ?case by (simp add: codes_def ci_count_def)
next
  case (Cons p ci)
  obtain k b where p: "p = (k, b)" by (cases p)
  from Cons.prems have k: "k \<notin> set (codes ci)" and d: "distinct (map fst ci)"
    by (simp_all add: p codes_def)
  have h: "map (\<lambda>c. length (get_descriptors ((k, b) # ci) c)) (codes ci)
      = map (\<lambda>c. length (get_descriptors ci c)) (codes ci)"
    using k by (intro map_cong) (auto simp: get_descriptors_Cons)
  have c: "codes ((k, b) # ci) = k # codes ci" by (simp add: codes_def)
  have "sum_list (map (\<lambda>c. length (get_descriptors ((k, b) # ci) c)) (codes ((k, b) # ci)))
      = length (get_descriptors ((k, b) # ci) k)
        + sum_list (map (\<lambda>c. length (get_descriptors ((k, b) # ci) c)) (codes ci))"
    by (simp only: c list.map sum_list.Cons)
  also have "\<dots> = length b + sum_list (map (\<lambda>c. length (get_descriptors ci c)) (codes ci))"
    by (simp only: h) (simp add: get_descriptors_Cons)
  finally
  have "sum_list (map (\<lambda>c. length (get_descriptors ((k, b) # ci) c)) (codes ((k, b) # ci)))
      = length b + sum_list (map (\<lambda>c. length (get_descriptors ci c)) (codes ci))" .
  with Cons.IH [OF d] show ?case by (simp add: p ci_count_def)
qed

lemma sum_list_map_mset:
  fixes f :: "'a \<Rightarrow> nat"
  assumes "mset xs = mset ys"
  shows "sum_list (map f xs) = sum_list (map f ys)"
proof -
  have "sum_list (map f xs) = sum_mset (image_mset f (mset xs))"
    by (simp flip: sum_mset_sum_list)
  also have "\<dots> = sum_mset (image_mset f (mset ys))" by (simp add: assms)
  also have "\<dots> = sum_list (map f ys)" by (simp flip: sum_mset_sum_list)
  finally show ?thesis .
qed

lemma concat_nonempty_length:
  "(\<And>c. c \<in> set cs \<Longrightarrow> g c \<noteq> []) \<Longrightarrow> length cs \<le> length (concat (map g cs))"
proof (induction cs)
  case Nil
  then show ?case by simp
next
  case (Cons c cs)
  then have ih: "length cs \<le> length (concat (map g cs))" by simp
  from Cons.prems obtain y ys where "g c = y # ys" by (cases "g c") auto
  with ih show ?case by simp
qed

lemma count_Some: "self_code_index s = Some ci \<Longrightarrow> count s = int (ci_count ci)"
  by (simp add: count_def)

lemma nn_neighbors_enough:
  assumes ci: "self_code_index s = Some ci" and inv: "ci_invar ci"
  shows "min n (int (ci_count ci)) \<le> int (length (nn_neighbors s ci d_sc n))"
proof -
  let ?near = "near_codes_of ci d_sc n"
  let ?g = "get_descriptors ci"
  have cnt: "count s = int (ci_count ci)" by (rule count_Some [OF ci])
  from collect_neighbors_prefix [of ?near ci "min n (count s)" "[]"]
  obtain m where eq: "nn_neighbors s ci d_sc n = concat (map ?g (take m ?near))"
    and stop: "m = length ?near
               \<or> min n (count s) \<le> int (length (concat (map ?g (take m ?near))))"
    by (auto simp: nn_neighbors_def Let_def)
  from stop show ?thesis
  proof
    assume "min n (count s) \<le> int (length (concat (map ?g (take m ?near))))"
    then show ?thesis by (simp add: eq cnt)
  next
    assume all: "m = length ?near"
    then have eq': "nn_neighbors s ci d_sc n = concat (map ?g ?near)" by (simp add: eq)
    have len: "length ?near = min (nat n) (length (codes ci))"
      by (simp add: near_codes_of_def nsmallest_length)
    from nsmallest_split [of n "codes ci" "hamming_distance d_sc"]
    obtain rest where ms: "mset (?near @ rest) = mset (codes ci)"
      unfolding near_codes_of_def by blast
    then have sub: "set ?near \<subseteq> set (codes ci)"
      by (metis set_append set_mset_mset sup_ge1)
    show ?thesis
    proof (cases "nat n \<le> length (codes ci)")
      case True
      have "length ?near \<le> length (concat (map ?g ?near))"
        using sub by (intro concat_nonempty_length get_descriptors_nonempty [OF inv]) auto
      with True len show ?thesis by (simp add: eq')
    next
      case False
      with len have "length ?near = length (codes ci)" by simp
      moreover from ms have "length (?near @ rest) = length (codes ci)"
        by (rule mset_eq_length)
      ultimately have "rest = []" by simp
      with ms have "mset ?near = mset (codes ci)" by simp
      then have "sum_list (map (\<lambda>c. length (?g c)) ?near)
          = sum_list (map (\<lambda>c. length (?g c)) (codes ci))"
        by (rule sum_list_map_mset)
      also have "\<dots> = ci_count ci"
        using inv by (intro bucket_sizes_sum) (simp add: ci_invar_def)
      finally have "length (concat (map ?g ?near)) = ci_count ci"
        by (simp add: length_concat o_def)
      then show ?thesis by (simp add: eq')
    qed
  qed
qed

lemma rank_neighbors_result:
  assumes "neighbors \<noteq> []" and "0 \<le> n"
  shows "\<exists>ns ds. rank_neighbors s d_vec n neighbors = Inr (ns, ds)
     \<and> length ns = min (nat n) (length neighbors)
     \<and> ds = map (\<lambda>e. self_dist_func s d_vec (vector e)) ns
     \<and> sorted ds
     \<and> mset ns \<subseteq># mset neighbors"
proof -
  let ?f = "\<lambda>e. self_dist_func s d_vec (vector e)"
  let ?ord = "sort_key fst (zip (map ?f neighbors) neighbors)"
  have "length ?ord = length neighbors" by simp
  with assms(1) have ne: "?ord \<noteq> []" by (metis length_0_conv)
  have r: "rank_neighbors s d_vec n neighbors
      = Inr (take (nat n) (map snd ?ord), take (nat n) (map fst ?ord))"
    using ne assms(2) by (simp add: rank_neighbors_def Let_def slice_to_def)
  have "\<forall>p\<in>set ?ord. fst p = ?f (snd p)"
    by (auto simp: set_zip)
  then have fs: "map fst ?ord = map ?f (map snd ?ord)" by simp
  have 1: "length (take (nat n) (map snd ?ord)) = min (nat n) (length neighbors)" by simp
  have 2: "take (nat n) (map fst ?ord) = map ?f (take (nat n) (map snd ?ord))"
    by (simp only: fs take_map)
  have 3: "sorted (take (nat n) (map fst ?ord))"
    by (intro sorted_wrt_take) simp
  have "mset (map snd ?ord) = mset (map snd (zip (map ?f neighbors) neighbors))"
    by (simp only: mset_map mset_sort)
  then have "mset (map snd ?ord) = mset neighbors"
    by (simp only: map_snd_zip length_map)
  moreover have "mset (take (nat n) (map snd ?ord)) \<subseteq># mset (map snd ?ord)"
    by (metis append_take_drop_id mset_append mset_subset_eq_add_left)
  ultimately have 4: "mset (take (nat n) (map snd ?ord)) \<subseteq># mset neighbors" by simp
  from r 1 2 3 4 show ?thesis by blast
qed

text \<open>
  C5. On a trained, non-empty index whose code index has distinct codes and no empty bucket,
  \<^verbatim>\<open>nn(d, n)\<close> with \<open>n \<ge> 1\<close> returns equally many descriptors and distances, at most
  \<open>n\<close> of them, fewer than \<open>n\<close> only if the index holds fewer than \<open>n\<close> descriptors; the
  distances are those of the returned descriptors to the probe and are non-decreasing.
\<close>

theorem nn_results:
  assumes "get_small_code s d = Inr (d_vec, bv, d_sc)"
    and "self_code_index s = Some ci" and "ci_invar ci"
    and "0 < count s" and "1 \<le> n"
  shows "\<exists>ns ds. nn s d n = Inr (ns, ds)
     \<and> length ns = length ds
     \<and> int (length ns) \<le> n
     \<and> (int (length ns) < n \<longrightarrow> count s < n)
     \<and> sorted ds
     \<and> ds = map (\<lambda>e. self_dist_func s d_vec (vector e)) ns"
proof -
  let ?nb = "nn_neighbors s ci d_sc n"
  have cnt: "count s = int (ci_count ci)" by (rule count_Some [OF assms(2)])
  have enough: "min n (count s) \<le> int (length ?nb)"
    using nn_neighbors_enough [OF assms(2,3)] by (simp add: cnt)
  with assms(4,5) have ne: "?nb \<noteq> []" by auto
  have n0: "0 \<le> n" using assms(5) by simp
  from rank_neighbors_result [OF ne n0, of s d_vec]
  obtain ns ds where r: "rank_neighbors s d_vec n ?nb = Inr (ns, ds)"
    and l: "length ns = min (nat n) (length ?nb)"
    and ds: "ds = map (\<lambda>e. self_dist_func s d_vec (vector e)) ns"
    and so: "sorted ds"
    by blast
  have "nn s d n = Inr (ns, ds)"
    using assms(1,2) r by (simp add: nn_def)
  moreover have "length ns = length ds" by (simp add: ds)
  moreover have "int (length ns) \<le> n" using l n0 by simp
  moreover have "int (length ns) < n \<longrightarrow> count s < n"
    using l enough n0 by auto
  ultimately show ?thesis using so ds by blast
qed

lemma collect_neighbors_empty:
  "(\<And>c. get_descriptors ci c = []) \<Longrightarrow> collect_neighbors ci tc [] cs = []"
  by (induction cs) (simp_all add: Let_def)

lemma ci_count_0_buckets: "ci_count ci = 0 \<Longrightarrow> get_descriptors ci c = []"
  by (induction ci) (auto simp: ci_count_def get_descriptors_def)

text \<open>
  C1 (as amended). On every index that holds zero descriptors \<^verbatim>\<open>nn(d, n)\<close> fails, though
  with no error of its own: an index without a mean vector raises \<^verbatim>\<open>TypeError\<close> while
  hashing the probe, and an index that hashes the probe but whose code index is empty
  raises \<^verbatim>\<open>ValueError\<close> when the empty ranking is unpacked.
\<close>

theorem nn_empty_fails:
  assumes "count s = 0"
  shows "(\<exists>e. nn s d n = Inl e)
       \<and> (self_mean_vector s = None \<longrightarrow> nn s d n = Inl TypeError)
       \<and> (\<forall>d_vec bv d_sc ci. get_small_code s d = Inr (d_vec, bv, d_sc)
             \<and> self_code_index s = Some ci
            \<longrightarrow> nn s d n = Inl (ValueError ''need more than 0 values to unpack''))"
proof -
  have a: "nn s d n = Inl TypeError" if "self_mean_vector s = None"
    using that by (simp add: nn_def get_small_code_def)
  have b: "nn s d n = Inl (ValueError ''need more than 0 values to unpack'')"
    if "get_small_code s d = Inr (d_vec, bv, d_sc)" "self_code_index s = Some ci"
    for d_vec bv d_sc ci
  proof -
    from assms that(2) have "ci_count ci = 0"
      by (simp add: count_def split: if_splits)
    then have "nn_neighbors s ci d_sc n = []"
      by (simp add: nn_neighbors_def Let_def collect_neighbors_empty ci_count_0_buckets)
    with that show ?thesis by (simp add: nn_def rank_neighbors_def)
  qed
  have c: "\<exists>e. nn s d n = Inl e"
  proof (cases "get_small_code s d")
    case (Inl e)
    then show ?thesis by (simp add: nn_def)
  next
    case (Inr t)
    obtain d_vec bv d_sc where t: "t = (d_vec, bv, d_sc)" by (cases t)
    show ?thesis
    proof (cases "self_code_index s")
      case None
      with Inr t show ?thesis by (simp add: nn_def)
    next
      case (Some ci)
      with b [of d_vec bv d_sc ci] Inr t show ?thesis by simp
    qed
  qed
  from a b c show ?thesis by blast
qed


subsection \<open>Evaluation on a small index\<close>

lemma hashed_probe:
  "get_small_code hashed_index (descr 7 [3, 1]) = Inr ([3, 1], [1, 0], 2)"
  by code_simp

lemma hashed_ci:
  "self_code_index hashed_index
     = Some [(2, [descr 0 [3, 1]]), (1, [descr 1 [0, 2], descr 2 [0, 3]])]"
  by (simp add: hashed_index_def)


theorem nn_candidate_selection_witness:
  "get_small_code hashed_index (descr 7 [3, 1]) = Inr ([3, 1], [1, 0], 2)
   \<and> self_code_index hashed_index
       = Some [(2, [descr 0 [3, 1]]), (1, [descr 1 [0, 2], descr 2 [0, 3]])]
   \<and> near_codes_of [(2, [descr 0 [3, 1]]), (1, [descr 1 [0, 2], descr 2 [0, 3]])] 2 3 = [2, 1]
   \<and> length (near_codes_of [(2, [descr 0 [3, 1]]), (1, [descr 1 [0, 2], descr 2 [0, 3]])] 2 3)
       = min (nat 3) (length (codes [(2, [descr 0 [3, 1]]), (1, [descr 1 [0, 2], descr 2 [0, 3]])]))
   \<and> nn hashed_index (descr 7 [3, 1]) 3
       = rank_neighbors hashed_index [3, 1] 3
           (nn_neighbors hashed_index
              [(2, [descr 0 [3, 1]]), (1, [descr 1 [0, 2], descr 2 [0, 3]])] 2 3)"
proof -
  note t = nn_candidate_selection [OF hashed_probe hashed_ci, of 3]
  have "near_codes_of [(2, [descr 0 [3, 1]]), (1, [descr 1 [0, 2], descr 2 [0, 3]])] 2 3 = [2, 1]"
    by code_simp
  with hashed_probe hashed_ci t show ?thesis by blast
qed

theorem nn_results_witness:
  "get_small_code hashed_index (descr 7 [3, 1]) = Inr ([3, 1], [1, 0], 2)
   \<and> ci_invar [(2, [descr 0 [3, 1]]), (1, [descr 1 [0, 2], descr 2 [0, 3]])]
   \<and> 0 < count hashed_index
   \<and> (\<exists>ns ds. nn hashed_index (descr 7 [3, 1]) 2 = Inr (ns, ds)
        \<and> length ns = length ds \<and> int (length ns) \<le> 2
        \<and> (int (length ns) < 2 \<longrightarrow> count hashed_index < 2)
        \<and> sorted ds
        \<and> ds = map (\<lambda>e. self_dist_func hashed_index [3, 1] (vector e)) ns)"
proof -
  have inv: "ci_invar [(2, [descr 0 [3, 1]]), (1, [descr 1 [0, 2], descr 2 [0, 3]])]"
    by (simp add: ci_invar_def)
  have cnt: "0 < count hashed_index" by code_simp
  have n: "(1::int) \<le> 2" by simp
  from hashed_probe inv cnt nn_results [OF hashed_probe hashed_ci inv cnt n]
  show ?thesis by blast
qed

theorem nn_empty_fails_witness:
  "count (fresh_index 1 None) = 0 \<and> self_mean_vector (fresh_index 1 None) = None
   \<and> nn (fresh_index 1 None) (descr 7 [3, 1]) 1 = Inl TypeError
   \<and> count emptied_index = 0
   \<and> get_small_code emptied_index (descr 7 [3, 1]) = Inr ([3, 1], [1, 0], 2)
   \<and> self_code_index emptied_index = Some []
   \<and> nn emptied_index (descr 7 [3, 1]) 1 = Inl (ValueError ''need more than 0 values to unpack'')"
proof -
  have c1: "count (fresh_index 1 None) = 0" by (simp add: count_def fresh_index_def)
  have m1: "self_mean_vector (fresh_index 1 None) = None" by (simp add: fresh_index_def)
  have c2: "count emptied_index = 0" by (simp add: count_def emptied_index_def ci_count_def)
  have g2: "get_small_code emptied_index (descr 7 [3, 1]) = Inr ([3, 1], [1, 0], 2)"
    by code_simp
  have i2: "self_code_index emptied_index = Some []" by (simp add: emptied_index_def)
  from nn_empty_fails [OF c1, of "descr 7 [3, 1]" 1] m1
  have r1: "nn (fresh_index 1 None) (descr 7 [3, 1]) 1 = Inl TypeError" by blast
  from nn_empty_fails [OF c2, of "descr 7 [3, 1]" 1] g2 i2
  have r2: "nn emptied_index (descr 7 [3, 1]) 1
              = Inl (ValueError ''need more than 0 values to unpack'')" by blast
  from c1 m1 r1 c2 g2 i2 r2 show ?thesis by blast
qed

text \<open>
  The errors at two indexes without descriptors: a freshly constructed one, and a trained
  one whose code index is empty. Neither is an error dedicated to the empty index, and
  they differ.
\<close>

theorem nn_empty_index_error_counterexample:
  "nn (fresh_index 1 None) (descr 7 [3, 1]) 1 = Inl TypeError
   \<and> nn emptied_index (descr 7 [3, 1]) 1 = Inl (ValueError ''need more than 0 values to unpack'')"
  by code_simp


section \<open>Training\<close>

lemma ci_count_add_descriptor: "ci_count (add_descriptor ci p) = Suc (ci_count ci)"
  by (induction ci p rule: add_descriptor.induct) (simp_all add: ci_count_def)

lemma ci_count_add_many: "ci_count (add_many_descriptors ci ps) = ci_count ci + length ps"
  unfolding add_many_descriptors_def
  by (induction ps arbitrary: ci) (simp_all add: ci_count_add_descriptor)

lemma length_dot: "length (dot a b) = length a"
  by (simp add: dot_def)

lemma find_itq_rotation_rows:
  "find_itq_rotation L v t g = (Inr (c, rot), g') \<Longrightarrow> length c = length v"
  by (auto simp: find_itq_rotation_def Let_def length_dot split: prod.splits sum.splits)


lemma build_index_failure_state:
  assumes "build_index L s g ds = (Inl e, s', g')"
  shows "s' = (if ds = [] then s else s\<lparr>self_mean_vector := Some (mean_axis0 (map vector ds))\<rparr>)"
  using assms
  by (auto simp: build_index_def Let_def split: if_splits sum.splits prod.splits)

lemma build_index_success_state:
  assumes "build_index L s g ds = (Inr u, s', g')"
  shows "\<exists>rot ci. s' = s\<lparr>self_mean_vector := Some (mean_axis0 (map vector ds)),
                        self_r := Some rot, self_code_index := Some ci\<rparr>
           \<and> ci_count ci = ci_count (self_index_factory s ()) + length ds \<and> ds \<noteq> []"
  using assms
  apply (auto simp: build_index_def Let_def length_dot
           dest!: find_itq_rotation_rows split: if_splits sum.splits prod.splits)
  apply (intro exI conjI)
   apply (rule refl)
  apply (simp add: ci_count_add_many)
  done


lemma build_index_seeded_again:
  assumes "build_index L s g ds = (Inr u, s1, g1)"
    and "self_rand_seed s = Some k" and "k \<noteq> 0"
  shows "build_index L s1 g2 ds = (Inr u, s1, g1)"
  using assms
  by (auto simp: build_index_def Let_def seed_generator_def
           split: if_splits sum.splits prod.splits)




text \<open>
  C7. \<^verbatim>\<open>build_index\<close> over an empty collection raises \<^verbatim>\<open>ValueError\<close> (the
  specification's InputError) and leaves the index object exactly as it was: no mean
  vector, rotation or code index is installed. Only the generator has been seeded.
\<close>

theorem build_index_no_descriptors:
  "build_index L s g [] = (Inl (ValueError ''No descriptors given!''), s,
      seed_generator L (self_rand_seed s) g)"
  by (simp add: build_index_def)

theorem build_index_no_descriptors_witness:
  "build_index small_numpy (fresh_index 1 (Some 5)) 0 []
     = (Inl (ValueError ''No descriptors given!''), fresh_index 1 (Some 5), 5)"
  using build_index_no_descriptors [of small_numpy "fresh_index 1 (Some 5)" 0]
  by (simp add: seed_generator_def small_numpy_def fresh_index_def)

text \<open>
  C2 (as amended). A failed \<^verbatim>\<open>build_index\<close> leaves the rotation matrix and the code index
  as they were. The whole index is unchanged when the failure is the empty-corpus check;
  any later failure leaves exactly one change behind, the mean vector of the new corpus.
  A successful build leaves mean vector, rotation matrix and code index all populated.
\<close>

theorem build_index_failure_effect:
  "(build_index L s g ds = (Inl e, s', g') \<longrightarrow>
       self_r s' = self_r s \<and> self_code_index s' = self_code_index s
     \<and> s' = (if ds = [] then s
             else s\<lparr>self_mean_vector := Some (mean_axis0 (map vector ds))\<rparr>))
   \<and> (build_index L s g ds = (Inr u, s', g') \<longrightarrow>
       self_mean_vector s' \<noteq> None \<and> self_r s' \<noteq> None \<and> self_code_index s' \<noteq> None)"
proof (intro conjI impI)
  assume f: "build_index L s g ds = (Inl e, s', g')"
  from build_index_failure_state [OF f]
  show "s' = (if ds = [] then s
              else s\<lparr>self_mean_vector := Some (mean_axis0 (map vector ds))\<rparr>)" .
  then show "self_r s' = self_r s" and "self_code_index s' = self_code_index s"
    by (simp_all split: if_splits)
next
  assume ok: "build_index L s g ds = (Inr u, s', g')"
  from build_index_success_state [OF ok]
  show "self_mean_vector s' \<noteq> None" and "self_r s' \<noteq> None" and "self_code_index s' \<noteq> None"
    by auto
qed

subsection \<open>Evaluating a build stage by stage\<close>

lemma build_index_eig_fails:
  assumes "ds \<noteq> []"
    and "seed_generator L (self_rand_seed s) g = g1"
    and "mean_axis0 (map vector ds) = mu"
    and "np_linalg_eig L (np_cov L (transpose_m (map (\<lambda>row. map2 (-) row mu) (map vector ds))))
           = Inl e"
  shows "build_index L s g ds = (Inl e, s\<lparr>self_mean_vector := Some mu\<rparr>, g1)"
  using assms by (auto simp: build_index_def Let_def)

lemma build_index_stages:
  assumes "ds \<noteq> []"
    and "seed_generator L (self_rand_seed s) g = g1"
    and "mean_axis0 (map vector ds) = mu"
    and "map (\<lambda>row. map2 (-) row mu) (map vector ds) = x'"
    and "np_linalg_eig L (np_cov L (transpose_m x')) = Inr (l, pc)"
    and "transpose_m (map snd (take (nat (self_bit_len s))
           (sorted_reverse fst (zip l (transpose_m pc))))) = pc_top"
    and "find_itq_rotation L (dot x' pc_top) (self_itq_iter_num s) g1 = (Inr (cb, rot), g2)"
    and "dot pc_top rot = rfinal"
    and "add_many_descriptors (self_index_factory s ())
           (map (\<lambda>i. (bit_vector_to_int (cb ! i), ds ! i)) [0..<length cb]) = ci"
  shows "build_index L s g ds
           = (Inr (), s\<lparr>self_mean_vector := Some mu, self_r := Some rfinal,
                          self_code_index := Some ci\<rparr>, g2)"
  using assms by (auto simp: build_index_def Let_def)

lemma corpus2_centred:
  "mean_axis0 (map vector corpus2) = [1, 0]"
  "map (\<lambda>row. map2 (-) row [1, 0]) (map vector corpus2) = [[- 1, 0], [1, 0]]"
  "np_linalg_eig small_numpy (np_cov small_numpy (transpose_m [[- 1, 0], [1, 0]]))
     = Inr ([2, 0], [[1, 0], [0, 1]])"
  by code_simp+

lemma corpus1_eig:
  "mean_axis0 (map vector corpus1) = [1]"
  "np_linalg_eig small_numpy
     (np_cov small_numpy (transpose_m (map (\<lambda>row. map2 (-) row [1]) (map vector corpus1))))
     = Inl LinAlgError"
  by code_simp+

lemma run_seed5:
  "build_index small_numpy (fresh_index 1 (Some 5)) 0 corpus2
     = (Inr (), (fresh_index 1 (Some 5))\<lparr>self_mean_vector := Some [1, 0],
          self_r := Some [[- 1], [0]],
          self_code_index := Some [(1, [descr 0 [0, 0]]), (0, [descr 1 [2, 0]])]\<rparr>, 6)"
proof (rule build_index_stages)
  show "corpus2 \<noteq> []" by (simp add: corpus2_def)
  show "seed_generator small_numpy (self_rand_seed (fresh_index 1 (Some 5))) 0 = 5"
    by code_simp
  show "transpose_m (map snd (take (nat (self_bit_len (fresh_index 1 (Some 5))))
           (sorted_reverse fst (zip [2, 0] (transpose_m [[1, 0], [0, 1::real]]))))) = [[1], [0]]"
    by code_simp
  show "find_itq_rotation small_numpy (dot [[- 1, 0], [1, 0]] [[1], [0]])
          (self_itq_iter_num (fresh_index 1 (Some 5))) 5 = (Inr ([[1], [0]], [[- 1]]), 6)"
    by code_simp
  show "dot [[1], [0]] [[- 1]] = [[- 1], [0]]" by code_simp
  show "add_many_descriptors (self_index_factory (fresh_index 1 (Some 5)) ())
           (map (\<lambda>i. (bit_vector_to_int ([[1], [0]] ! i), corpus2 ! i)) [0..<length [[1::nat], [0]]])
          = [(1, [descr 0 [0, 0]]), (0, [descr 1 [2, 0]])]" by code_simp
qed (rule corpus2_centred)+

lemma run_seed0_first:
  "build_index small_numpy (fresh_index 1 (Some 0)) 0 corpus2 = (Inr (), seed0_first_run, 1)"
  unfolding seed0_first_run_def
proof (rule build_index_stages)
  show "corpus2 \<noteq> []" by (simp add: corpus2_def)
  show "seed_generator small_numpy (self_rand_seed (fresh_index 1 (Some 0))) 0 = 0"
    by code_simp
  show "transpose_m (map snd (take (nat (self_bit_len (fresh_index 1 (Some 0))))
           (sorted_reverse fst (zip [2, 0] (transpose_m [[1, 0], [0, 1::real]]))))) = [[1], [0]]"
    by code_simp
  show "find_itq_rotation small_numpy (dot [[- 1, 0], [1, 0]] [[1], [0]])
          (self_itq_iter_num (fresh_index 1 (Some 0))) 0 = (Inr ([[0], [1]], [[1]]), 1)"
    by code_simp
  show "dot [[1], [0]] [[1]] = [[1], [0]]" by code_simp
  show "add_many_descriptors (self_index_factory (fresh_index 1 (Some 0)) ())
           (map (\<lambda>i. (bit_vector_to_int ([[0], [1]] ! i), corpus2 ! i)) [0..<length [[0::nat], [1]]])
          = [(0, [descr 0 [0, 0]]), (1, [descr 1 [2, 0]])]" by code_simp
qed (rule corpus2_centred)+

lemma run_seed0_second:
  "build_index small_numpy seed0_first_run 1 corpus2
     = (Inr (), seed0_first_run\<lparr>self_mean_vector := Some [1, 0],
          self_r := Some [[- 1], [0]],
          self_code_index := Some [(1, [descr 0 [0, 0]]), (0, [descr 1 [2, 0]])]\<rparr>, 2)"
proof (rule build_index_stages)
  show "corpus2 \<noteq> []" by (simp add: corpus2_def)
  show "seed_generator small_numpy (self_rand_seed seed0_first_run) 1 = 1"
    by code_simp
  show "transpose_m (map snd (take (nat (self_bit_len seed0_first_run))
           (sorted_reverse fst (zip [2, 0] (transpose_m [[1, 0], [0, 1::real]]))))) = [[1], [0]]"
    by code_simp
  show "find_itq_rotation small_numpy (dot [[- 1, 0], [1, 0]] [[1], [0]])
          (self_itq_iter_num seed0_first_run) 1 = (Inr ([[1], [0]], [[- 1]]), 2)"
    by code_simp
  show "dot [[1], [0]] [[- 1]] = [[- 1], [0]]" by code_simp
  show "add_many_descriptors (self_index_factory seed0_first_run ())
           (map (\<lambda>i. (bit_vector_to_int ([[1], [0]] ! i), corpus2 ! i)) [0..<length [[1::nat], [0]]])
          = [(1, [descr 0 [0, 0]]), (0, [descr 1 [2, 0]])]" by code_simp
qed (rule corpus2_centred)+

lemma run_fail_trained:
  "build_index small_numpy hashed_index 0 corpus1
     = (Inl LinAlgError, hashed_index\<lparr>self_mean_vector := Some [1]\<rparr>, 0)"
proof (rule build_index_eig_fails)
  show "corpus1 \<noteq> []" by (simp add: corpus1_def)
  show "seed_generator small_numpy (self_rand_seed hashed_index) 0 = 0" by code_simp
qed (rule corpus1_eig)+

lemma run_fail_fresh:
  "build_index small_numpy (fresh_index 1 None) 0 corpus1
     = (Inl LinAlgError, (fresh_index 1 None)\<lparr>self_mean_vector := Some [1]\<rparr>, 0)"
proof (rule build_index_eig_fails)
  show "corpus1 \<noteq> []" by (simp add: corpus1_def)
  show "seed_generator small_numpy (self_rand_seed (fresh_index 1 None)) 0 = 0" by code_simp
qed (rule corpus1_eig)+

theorem build_index_failure_effect_witness:
  "build_index small_numpy hashed_index 0 corpus1
     = (Inl LinAlgError, hashed_index\<lparr>self_mean_vector := Some [1]\<rparr>, 0)
   \<and> self_r (hashed_index\<lparr>self_mean_vector := Some [1]\<rparr>) = self_r hashed_index
   \<and> self_code_index (hashed_index\<lparr>self_mean_vector := Some [1]\<rparr>)
       = self_code_index hashed_index
   \<and> fst (build_index small_numpy (fresh_index 1 (Some 5)) 0 corpus2) = Inr ()
   \<and> self_r (fst (snd (build_index small_numpy (fresh_index 1 (Some 5)) 0 corpus2))) \<noteq> None"
proof -
  note f = build_index_failure_effect [THEN conjunct1, THEN mp, OF run_fail_trained]
  note g = build_index_failure_effect [THEN conjunct2, THEN mp, OF run_seed5]
  from f have "self_r (hashed_index\<lparr>self_mean_vector := Some [1]\<rparr>) = self_r hashed_index"
    and "self_code_index (hashed_index\<lparr>self_mean_vector := Some [1]\<rparr>)
           = self_code_index hashed_index"
    by blast+
  moreover from g
  have "self_r (fst (snd (build_index small_numpy (fresh_index 1 (Some 5)) 0 corpus2))) \<noteq> None"
    unfolding run_seed5 fst_conv snd_conv by blast
  moreover have "fst (build_index small_numpy (fresh_index 1 (Some 5)) 0 corpus2) = Inr ()"
    by (simp add: run_seed5)
  ultimately show ?thesis using run_fail_trained by blast
qed

text \<open>
  The claim as stated fails: one-dimensional descriptors make the eigen-solver raise after
  the mean vector has been assigned. On a trained index the mean vector is replaced while
  the old rotation stays; on a fresh index the mean vector is populated and the rotation
  absent.
\<close>

theorem build_index_not_atomic_counterexample:
  "build_index small_numpy hashed_index 0 corpus1
     = (Inl LinAlgError, hashed_index\<lparr>self_mean_vector := Some [1]\<rparr>, 0)
   \<and> self_mean_vector hashed_index = Some [1, 0]
   \<and> self_mean_vector (hashed_index\<lparr>self_mean_vector := Some [1]\<rparr>) = Some [1]
   \<and> self_r (hashed_index\<lparr>self_mean_vector := Some [1]\<rparr>) = Some [[1, - 1], [0, 1]]
   \<and> build_index small_numpy (fresh_index 1 None) 0 corpus1
       = (Inl LinAlgError, (fresh_index 1 None)\<lparr>self_mean_vector := Some [1]\<rparr>, 0)
   \<and> self_mean_vector ((fresh_index 1 None)\<lparr>self_mean_vector := Some [1]\<rparr>) = Some [1]
   \<and> self_r ((fresh_index 1 None)\<lparr>self_mean_vector := Some [1]\<rparr>) = None"
  using run_fail_trained run_fail_fresh by (simp add: hashed_index_def fresh_index_def)

text \<open>
  C3. With \<^verbatim>\<open>random_seed = 0\<close> the guard \<^verbatim>\<open>if self._rand_seed:\<close> is false and the
  generator is not seeded: two consecutive runs over the same corpus draw different initial
  rotations and end with different rotation matrices and code assignments.
\<close>

theorem build_index_seed_zero_runs_differ:
  "build_index small_numpy (fresh_index 1 (Some 0)) 0 corpus2 = (Inr (), seed0_first_run, 1)
   \<and> self_r seed0_first_run = Some [[1], [0]]
   \<and> self_code_index seed0_first_run = Some [(0, [descr 0 [0, 0]]), (1, [descr 1 [2, 0]])]
   \<and> fst (build_index small_numpy seed0_first_run 1 corpus2) = Inr ()
   \<and> self_r (fst (snd (build_index small_numpy seed0_first_run 1 corpus2)))
       = Some [[- 1], [0]]
   \<and> self_code_index (fst (snd (build_index small_numpy seed0_first_run 1 corpus2)))
       = Some [(1, [descr 0 [0, 0]]), (0, [descr 1 [2, 0]])]"
proof -
  have "self_r seed0_first_run = Some [[1], [0]]"
    and "self_code_index seed0_first_run = Some [(0, [descr 0 [0, 0]]), (1, [descr 1 [2, 0]])]"
    by (simp_all add: seed0_first_run_def)
  moreover
  have "fst (build_index small_numpy seed0_first_run 1 corpus2) = Inr ()"
    and "self_r (fst (snd (build_index small_numpy seed0_first_run 1 corpus2)))
           = Some [[- 1], [0]]"
    and "self_code_index (fst (snd (build_index small_numpy seed0_first_run 1 corpus2)))
           = Some [(1, [descr 0 [0, 0]]), (0, [descr 1 [2, 0]])]"
    unfolding run_seed0_second fst_conv snd_conv by simp_all
  ultimately show ?thesis using run_seed0_first by blast
qed

text \<open>
  C9. When \<^verbatim>\<open>build_index\<close> has succeeded on a corpus, a second run on the same corpus
  that succeeds leaves \<^verbatim>\<open>count()\<close> unchanged: the code index is rebuilt from what the
  factory produces plus one entry per descriptor, not appended to. With a fixed non-zero
  seed the second run does succeed and reproduces the index exactly.
\<close>

theorem build_index_twice_count:
  assumes "build_index L s g ds = (Inr u, s1, g1)"
  shows "(\<forall>u' s2 g2. build_index L s1 g1 ds = (Inr u', s2, g2) \<longrightarrow>
            count s2 = count s1
          \<and> count s2 = int (ci_count (self_index_factory s ()) + length ds))
       \<and> (\<forall>k. self_rand_seed s = Some k \<and> k \<noteq> 0 \<longrightarrow>
            build_index L s1 g1 ds = (Inr u, s1, g1))"
proof (intro conjI allI impI)
  from build_index_success_state [OF assms]
  obtain rot ci where s1: "s1 = s\<lparr>self_mean_vector := Some (mean_axis0 (map vector ds)),
                        self_r := Some rot, self_code_index := Some ci\<rparr>"
    and c1: "ci_count ci = ci_count (self_index_factory s ()) + length ds"
    by blast
  have cnt1: "count s1 = int (ci_count (self_index_factory s ()) + length ds)"
    using c1 by (simp add: s1 count_def)
  fix u' s2 g2
  assume b2: "build_index L s1 g1 ds = (Inr u', s2, g2)"
  from build_index_success_state [OF b2]
  obtain rot' ci' where s2: "s2 = s1\<lparr>self_mean_vector := Some (mean_axis0 (map vector ds)),
                        self_r := Some rot', self_code_index := Some ci'\<rparr>"
    and c2: "ci_count ci' = ci_count (self_index_factory s1 ()) + length ds"
    by blast
  have "self_index_factory s1 = self_index_factory s" by (simp add: s1)
  with c2 show "count s2 = int (ci_count (self_index_factory s ()) + length ds)"
    by (simp add: s2 count_def)
  with cnt1 show "count s2 = count s1" by simp
next
  fix k
  assume "self_rand_seed s = Some k \<and> k \<noteq> 0"
  then show "build_index L s1 g1 ds = (Inr u, s1, g1)"
    using build_index_seeded_again [OF assms] by blast
qed


theorem build_index_twice_count_witness:
  "build_index small_numpy (fresh_index 1 (Some 5)) 0 corpus2
     = (Inr (), (fresh_index 1 (Some 5))\<lparr>self_mean_vector := Some [1, 0],
          self_r := Some [[- 1], [0]],
          self_code_index := Some [(1, [descr 0 [0, 0]]), (0, [descr 1 [2, 0]])]\<rparr>, 6)
   \<and> build_index small_numpy ((fresh_index 1 (Some 5))\<lparr>self_mean_vector := Some [1, 0],
          self_r := Some [[- 1], [0]],
          self_code_index := Some [(1, [descr 0 [0, 0]]), (0, [descr 1 [2, 0]])]\<rparr>) 6 corpus2
     = (Inr (), (fresh_index 1 (Some 5))\<lparr>self_mean_vector := Some [1, 0],
          self_r := Some [[- 1], [0]],
          self_code_index := Some [(1, [descr 0 [0, 0]]), (0, [descr 1 [2, 0]])]\<rparr>, 6)
   \<and> count ((fresh_index 1 (Some 5))\<lparr>self_mean_vector := Some [1, 0],
          self_r := Some [[- 1], [0]],
          self_code_index := Some [(1, [descr 0 [0, 0]]), (0, [descr 1 [2, 0]])]\<rparr>) = 2"
proof -
  let ?s1 = "(fresh_index 1 (Some 5))\<lparr>self_mean_vector := Some [1, 0],
          self_r := Some [[- 1], [0]],
          self_code_index := Some [(1, [descr 0 [0, 0]]), (0, [descr 1 [2, 0]])]\<rparr>"
  note t = build_index_twice_count [OF run_seed5]
  have seed: "self_rand_seed (fresh_index 1 (Some 5)) = Some 5 \<and> (5::int) \<noteq> 0"
    by (simp add: fresh_index_def)
  from t seed have b2: "build_index small_numpy ?s1 6 corpus2 = (Inr (), ?s1, 6)" by blast
  from t b2
  have "count ?s1 = int (ci_count (self_index_factory (fresh_index 1 (Some 5)) ())
                           + length corpus2)"
    by blast
  then have "count ?s1 = 2" by (simp add: fresh_index_def corpus2_def ci_count_def)
  with run_seed5 b2 show ?thesis by blast
qed

text \<open>
  C10. \<^verbatim>\<open>count()\<close> is 0 on an index that has just been constructed, and on any index
  without a code index, rather than an error; after a successful \<^verbatim>\<open>build_index\<close> it is
  the total number of descriptors of the installed code index.
\<close>

theorem count_before_and_after_training:
  "(init DF index_factory bit_length itq_iterations distance_method random_seed = Inr s0
      \<longrightarrow> count s0 = 0)
   \<and> (self_code_index s = None \<longrightarrow> count s = 0)
   \<and> (build_index L s g ds = (Inr u, s', g') \<longrightarrow>
        (\<exists>ci. self_code_index s' = Some ci \<and> count s' = int (ci_count ci)))"
proof (intro conjI impI)
  assume "init DF index_factory bit_length itq_iterations distance_method random_seed = Inr s0"
  then have "self_code_index s0 = None"
    by (auto simp: init_def split: if_splits sum.splits)
  then show "count s0 = 0" by (simp add: count_def)
next
  assume "self_code_index s = None"
  then show "count s = 0" by (simp add: count_def)
next
  assume "build_index L s g ds = (Inr u, s', g')"
  from build_index_success_state [OF this]
  obtain ci where "self_code_index s' = Some ci" by auto
  then show "\<exists>ci. self_code_index s' = Some ci \<and> count s' = int (ci_count ci)"
    by (simp add: count_def)
qed


lemma init_fresh:
  "init metrics (\<lambda>_. []) 1 2 ''hik'' (Some 5) = Inr (fresh_index 1 (Some 5))"
  by (simp add: init_def get_dist_func_def fresh_index_def metrics_def)

theorem count_before_and_after_training_witness:
  "init metrics (\<lambda>_. []) 1 2 ''hik'' (Some 5) = Inr (fresh_index 1 (Some 5))
   \<and> self_code_index (fresh_index 1 (Some 5)) = None
   \<and> count (fresh_index 1 (Some 5)) = 0
   \<and> fst (build_index small_numpy (fresh_index 1 (Some 5)) 0 corpus2) = Inr ()
   \<and> (\<exists>ci. self_code_index (fst (snd (build_index small_numpy (fresh_index 1 (Some 5)) 0 corpus2)))
             = Some ci
         \<and> count (fst (snd (build_index small_numpy (fresh_index 1 (Some 5)) 0 corpus2)))
             = int (ci_count ci))"
proof -
  have n: "self_code_index (fresh_index 1 (Some 5)) = None" by (simp add: fresh_index_def)
  have a: "count (fresh_index 1 (Some 5)) = 0"
    by (rule count_before_and_after_training [THEN conjunct1, THEN mp, OF init_fresh])
  have b: "\<exists>ci. self_code_index (fst (snd (build_index small_numpy (fresh_index 1 (Some 5)) 0 corpus2)))
             = Some ci
         \<and> count (fst (snd (build_index small_numpy (fresh_index 1 (Some 5)) 0 corpus2)))
             = int (ci_count ci)"
    unfolding run_seed5 fst_conv snd_conv
    by (rule count_before_and_after_training
               [THEN conjunct2, THEN conjunct2, THEN mp, OF run_seed5])
  have c: "fst (build_index small_numpy (fresh_index 1 (Some 5)) 0 corpus2) = Inr ()"
    by (simp add: run_seed5)
  from init_fresh n a b c show ?thesis by blast
qed


subsection \<open>Training establishes the code index invariant\<close>

lemma codes_add_descriptor:
  "fst ` set (add_descriptor ci (c, d)) = insert c (fst ` set ci)"
  by (induction ci "(c, d)" rule: add_descriptor.induct) auto

lemma add_descriptor_invar: "ci_invar ci \<Longrightarrow> ci_invar (add_descriptor ci p)"
proof (induction ci p rule: add_descriptor.induct)
  case (1 c d)
  then show ?case by (simp add: ci_invar_def)
next
  case (2 k b ci c d)
  then show ?case
    by (auto simp: ci_invar_def codes_add_descriptor)
qed

lemma add_many_descriptors_invar:
  "ci_invar ci \<Longrightarrow> ci_invar (add_many_descriptors ci ps)"
  unfolding add_many_descriptors_def
  by (induction ps arbitrary: ci) (simp_all add: add_descriptor_invar)

lemma build_index_invar:
  assumes "build_index L s g ds = (Inr u, s', g')" and "ci_invar (self_index_factory s ())"
  shows "\<exists>ci. self_code_index s' = Some ci \<and> ci_invar ci"
  using assms
  by (auto simp: build_index_def Let_def add_many_descriptors_invar
           split: if_splits sum.splits prod.splits)

section \<open>Hashing on a trained index\<close>

subsection \<open>Shapes through training\<close>

lemma is_matrix_ncols: "is_matrix r c m \<Longrightarrow> 0 < r \<Longrightarrow> ncols m = c"
  by (cases m) (simp_all add: is_matrix_def ncols_def)

lemma is_matrix_transpose:
  "is_matrix r c m \<Longrightarrow> 0 < r \<Longrightarrow> is_matrix c r (transpose_m m)"
  by (simp add: is_matrix_def transpose_m_def is_matrix_ncols list_all_iff)

lemma is_matrix_dot: "is_matrix (length a) (ncols b) (dot a b)"
  by (simp add: is_matrix_def dot_def dot_vm_def transpose_m_def list_all_iff)

lemma is_matrix_map_map: "is_matrix r c m \<Longrightarrow> is_matrix r c (map (map f) m)"
  by (simp add: is_matrix_def list_all_iff)

lemma is_matrix_map_take: "is_matrix r c m \<Longrightarrow> is_matrix r c (map (take c) m)"
  by (simp add: is_matrix_def list_all_iff)

lemma itq_loop_shape:
  assumes L: "numpy_shapes L" and v: "is_matrix n k v" and n: "0 < n" and k: "0 < k"
  shows "is_matrix k k rot \<Longrightarrow> itq_loop L v t rot = Inr rot' \<Longrightarrow> is_matrix k k rot'"
proof (induction t arbitrary: rot)
  case 0
  then show ?case by simp
next
  case (Suc t)
  let ?ux = "map (map (\<lambda>x. if x \<ge> 0 then 1 else - 1 :: real)) (dot v rot)"
  let ?c = "dot (transpose_m ?ux) v"
  from Suc.prems(2) obtain ub sigma ua where svd: "np_linalg_svd L ?c = Inr (ub, sigma, ua)"
    and rec: "itq_loop L v t (dot ua (transpose_m ub)) = Inr rot'"
    by (auto simp: Let_def split: sum.splits)
  have rk: "ncols rot = k" using Suc.prems(1) k by (rule is_matrix_ncols)
  have "is_matrix n k (dot v rot)"
    using is_matrix_dot [of v rot] v by (simp add: is_matrix_def rk)
  then have "is_matrix n k ?ux" by (rule is_matrix_map_map)
  then have "is_matrix k n (transpose_m ?ux)" using n by (rule is_matrix_transpose)
  then have lc: "length ?c = k" by (simp add: dot_def is_matrix_def)
  have vk: "ncols v = k" using v n by (rule is_matrix_ncols)
  have c: "is_matrix k k ?c"
    using is_matrix_dot [of "transpose_m ?ux" v] lc by (simp add: is_matrix_def vk dot_def)
  then have nc: "ncols ?c = k" using k by (rule is_matrix_ncols)
  from L svd have "is_matrix (length ?c) (length ?c) ub" and "is_matrix (ncols ?c) (ncols ?c) ua"
    unfolding numpy_shapes_def by blast+
  then have ub: "is_matrix k k ub" and ua: "is_matrix k k ua"
    by (simp_all only: lc nc)
  have "is_matrix k k (transpose_m ub)" using ub k by (rule is_matrix_transpose)
  then have "ncols (transpose_m ub) = k" using k by (rule is_matrix_ncols)
  then have "is_matrix k k (dot ua (transpose_m ub))"
    using is_matrix_dot [of ua "transpose_m ub"] ua by (simp add: is_matrix_def)
  from Suc.IH [OF this rec] show ?case .
qed

lemma find_itq_rotation_shape:
  assumes L: "numpy_shapes L" and v: "is_matrix n k v" and n: "0 < n" and k: "0 < k"
    and f: "find_itq_rotation L v t g = (Inr (cb, rot), g2)"
  shows "is_matrix k k rot"
proof -
  have vk: "ncols v = k" using v n by (rule is_matrix_ncols)
  obtain r0 g' where r0: "np_random_randn L k k g = (r0, g')" by (cases "np_random_randn L k k g")
  from f obtain u11 s2 v2 where svd: "np_linalg_svd L r0 = Inr (u11, s2, v2)"
    and loop: "itq_loop L v (nat t) (map (take k) u11) = Inr rot"
    by (auto simp: find_itq_rotation_def Let_def vk r0 split: sum.splits)
  from L have "is_matrix k k (fst (np_random_randn L k k g))"
    unfolding numpy_shapes_def by blast
  then have "is_matrix k k r0" by (simp add: r0)
  then have "length r0 = k" by (simp add: is_matrix_def)
  with L svd have "is_matrix k k u11" unfolding numpy_shapes_def by blast
  then have "is_matrix k k (map (take k) u11)" by (rule is_matrix_map_take)
  from itq_loop_shape [OF L v n k this loop] show ?thesis .
qed

lemma build_index_success_parts:
  assumes "build_index L s g ds = (Inr u, s', g')"
  shows "\<exists>l pc cb rot g2. ds \<noteq> []
     \<and> np_linalg_eig L (np_cov L (transpose_m
           (map (\<lambda>row. map2 (-) row (mean_axis0 (map vector ds))) (map vector ds))))
         = Inr (l, pc)
     \<and> find_itq_rotation L
           (dot (map (\<lambda>row. map2 (-) row (mean_axis0 (map vector ds))) (map vector ds))
              (transpose_m (map snd (take (nat (self_bit_len s))
                 (sorted_reverse fst (zip l (transpose_m pc)))))))
           (self_itq_iter_num s) (seed_generator L (self_rand_seed s) g)
         = (Inr (cb, rot), g2)
     \<and> self_mean_vector s' = Some (mean_axis0 (map vector ds))
     \<and> self_r s' = Some (dot (transpose_m (map snd (take (nat (self_bit_len s))
                 (sorted_reverse fst (zip l (transpose_m pc)))))) rot)
     \<and> self_bit_len s' = self_bit_len s"
proof (cases "ds = []")
  case True
  with assms show ?thesis by (simp add: build_index_def)
next
  case False
  let ?x' = "map (\<lambda>row. map2 (-) row (mean_axis0 (map vector ds))) (map vector ds)"
  from assms False obtain l pc where
    eig: "np_linalg_eig L (np_cov L (transpose_m ?x')) = Inr (l, pc)"
    by (cases "np_linalg_eig L (np_cov L (transpose_m ?x'))")
       (auto simp: build_index_def Let_def)
  let ?pc_top = "transpose_m (map snd (take (nat (self_bit_len s))
                 (sorted_reverse fst (zip l (transpose_m pc)))))"
  let ?f = "find_itq_rotation L (dot ?x' ?pc_top) (self_itq_iter_num s)
              (seed_generator L (self_rand_seed s) g)"
  obtain r g2 where f: "?f = (r, g2)" by (cases ?f)
  from assms False eig f obtain cb rot where r: "r = Inr (cb, rot)"
    by (cases r) (auto simp: build_index_def Let_def)
  from assms False eig f r
  have "self_mean_vector s' = Some (mean_axis0 (map vector ds))"
    and "self_r s' = Some (dot ?pc_top rot)" and "self_bit_len s' = self_bit_len s"
    by (auto simp: build_index_def Let_def)
  with False eig f r show ?thesis by blast
qed

lemma mean_axis0_length: "length (mean_axis0 x) = ncols x"
  by (simp add: mean_axis0_def transpose_m_def)

lemma sorted_reverse_set: "set (sorted_reverse key xs) = set xs"
  by (simp add: sorted_reverse_def)

lemma sorted_reverse_length: "length (sorted_reverse key xs) = length xs"
  by (simp add: sorted_reverse_def)

lemma build_index_shapes:
  assumes L: "numpy_shapes L"
    and b: "build_index L s g ds = (Inr u, s', g')"
    and bl: "0 < self_bit_len s"
    and D: "0 < D"
    and dim: "list_all (\<lambda>e. length (vector e) = D) ds"
  shows "\<exists>mu rot. self_mean_vector s' = Some mu \<and> length mu = D
     \<and> self_r s' = Some rot \<and> is_matrix D (min (nat (self_bit_len s)) D) rot
     \<and> self_bit_len s' = self_bit_len s"
proof -
  let ?x = "map vector ds"
  let ?mu = "mean_axis0 ?x"
  let ?x' = "map (\<lambda>row. map2 (-) row ?mu) ?x"
  let ?k = "min (nat (self_bit_len s)) D"
  from build_index_success_parts [OF b] obtain l pc cb rot g2 where ne: "ds \<noteq> []"
    and eig: "np_linalg_eig L (np_cov L (transpose_m ?x')) = Inr (l, pc)"
    and fit: "find_itq_rotation L
           (dot ?x' (transpose_m (map snd (take (nat (self_bit_len s))
                 (sorted_reverse fst (zip l (transpose_m pc)))))))
           (self_itq_iter_num s) (seed_generator L (self_rand_seed s) g)
         = (Inr (cb, rot), g2)"
    and mu: "self_mean_vector s' = Some ?mu"
    and r: "self_r s' = Some (dot (transpose_m (map snd (take (nat (self_bit_len s))
                 (sorted_reverse fst (zip l (transpose_m pc)))))) rot)"
    and same: "self_bit_len s' = self_bit_len s"
    by blast
  let ?top = "take (nat (self_bit_len s)) (sorted_reverse fst (zip l (transpose_m pc)))"
  let ?pc_top = "transpose_m (map snd ?top)"
  have N: "0 < length ds" using ne by simp
  have k: "0 < ?k" using bl D by simp
  have x: "is_matrix (length ds) D ?x"
    using dim by (simp add: is_matrix_def list_all_iff)
  then have "ncols ?x = D" using N by (rule is_matrix_ncols)
  then have lmu: "length ?mu = D" by (simp add: mean_axis0_length)
  have x': "is_matrix (length ds) D ?x'"
    using dim lmu by (simp add: is_matrix_def list_all_iff)
  then have "is_matrix D (length ds) (transpose_m ?x')" using N by (rule is_matrix_transpose)
  then have "length (transpose_m ?x') = D" by (simp add: is_matrix_def)
  with L have lc: "length (np_cov L (transpose_m ?x')) = D"
    unfolding numpy_shapes_def by simp
  from L eig have "length l = length (np_cov L (transpose_m ?x'))"
    and "is_matrix (length (np_cov L (transpose_m ?x'))) (length (np_cov L (transpose_m ?x'))) pc"
    unfolding numpy_shapes_def by blast+
  then have ll: "length l = D" and pc: "is_matrix D D pc" by (simp_all only: lc)
  have tpc: "is_matrix D D (transpose_m pc)" using pc D by (rule is_matrix_transpose)
  have ltop: "length ?top = ?k"
    using ll tpc by (simp add: sorted_reverse_length is_matrix_def)
  have sub: "set ?top \<subseteq> set (zip l (transpose_m pc))"
    using set_take_subset [of "nat (self_bit_len s)" "sorted_reverse fst (zip l (transpose_m pc))"]
    by (simp only: sorted_reverse_set)
  have "snd p \<in> set (transpose_m pc)" if "p \<in> set ?top" for p
  proof -
    from that sub have "p \<in> set (zip l (transpose_m pc))" by blast
    then have "(fst p, snd p) \<in> set (zip l (transpose_m pc))" by simp
    then show ?thesis by (rule set_zip_rightD)
  qed
  then have "is_matrix ?k D (map snd ?top)"
    using ltop tpc by (auto simp: is_matrix_def list_all_iff)
  then have top: "is_matrix D ?k ?pc_top" using k by (rule is_matrix_transpose)
  then have nct: "ncols ?pc_top = ?k" using D by (rule is_matrix_ncols)
  have xx: "is_matrix (length ds) ?k (dot ?x' ?pc_top)"
    using is_matrix_dot [of ?x' ?pc_top] by (simp add: nct)
  from find_itq_rotation_shape [OF L xx N k fit] have rot: "is_matrix ?k ?k rot" .
  then have "ncols rot = ?k" using k by (rule is_matrix_ncols)
  moreover have "length ?pc_top = D" using top by (simp add: is_matrix_def)
  ultimately have "is_matrix D ?k (dot ?pc_top rot)"
    using is_matrix_dot [of ?pc_top rot] by simp
  with mu lmu r same show ?thesis by blast
qed

subsection \<open>The small code of a trained index\<close>

lemma small_numpy_shapes: "numpy_shapes small_numpy"
  unfolding numpy_shapes_def
proof (intro conjI allI impI)
  fix m :: matrix
  show "length (np_cov small_numpy m) = length m"
    by (simp add: small_numpy_def cov_rows_def Let_def)
next
  fix c l pc
  assume "np_linalg_eig small_numpy c = Inr (l, pc)"
  then show "length l = length c" and "is_matrix (length c) (length c) pc"
    by (auto simp: small_numpy_def is_matrix_def list_all_iff split: if_splits)
next
  fix m u sv vh
  assume a: "np_linalg_svd small_numpy m = Inr (u, sv, vh)"
  then have sq: "m \<noteq> []" "is_matrix (length m) (length m) m"
    by (auto simp: small_numpy_def split: if_splits)
  then have nc: "ncols m = length m"
    by (intro is_matrix_ncols [of "length m"]) simp_all
  from a show "is_matrix (length m) (length m) u"
    by (auto simp: small_numpy_def is_matrix_def list_all_iff split: if_splits)
  from a show "is_matrix (ncols m) (ncols m) vh"
    unfolding nc by (auto simp: small_numpy_def is_matrix_def list_all_iff split: if_splits)
next
  fix r c :: nat and g :: nat
  show "is_matrix r c (fst (np_random_randn small_numpy r c g))"
    by (simp add: small_numpy_def is_matrix_def list_all_iff)
qed

text \<open>
  C4 (as amended). Let an index be trained by a successful \<^verbatim>\<open>build_index\<close> with bit
  length \<open>b > 0\<close> over descriptors of dimension \<open>D\<close>, the numerical library returning the
  shapes it documents. The installed rotation is \<open>D\<close> by \<open>k\<close> with \<open>k = min(b, D)\<close>, so
  \<open>D\<close> by \<open>b\<close> exactly when \<open>b \<le> D\<close>. \<^verbatim>\<open>get_small_code\<close> of a \<open>D\<close>-dimensional descriptor
  returns the descriptor's vector, the bit vector whose \<open>j\<close>-th bit is 1 exactly when the
  \<open>j\<close>-th component of (vector minus mean) times rotation is at least zero, and the code
  that packs these \<open>k\<close> bits most significant first; the code lies in \<open>[0, 2^k)\<close> and so in
  \<open>[0, 2^b)\<close>.
\<close>

theorem get_small_code_trained:
  assumes "numpy_shapes L"
    and "build_index L s g ds = (Inr u, s', g')"
    and "0 < self_bit_len s"
    and "0 < D" and "list_all (\<lambda>e. length (vector e) = D) ds"
    and "length (vector d) = D"
  shows "\<exists>mu rot bits code.
      self_bit_len s' = self_bit_len s
    \<and> self_mean_vector s' = Some mu \<and> length mu = D
    \<and> self_r s' = Some rot \<and> is_matrix D (min (nat (self_bit_len s)) D) rot
    \<and> get_small_code s' d = Inr (vector d, bits, code)
    \<and> bits = map (\<lambda>j. if 0 \<le> (\<Sum>i<D. (vector d ! i - mu ! i) * rot ! i ! j) then 1 else 0)
               [0..<min (nat (self_bit_len s)) D]
    \<and> code = (\<Sum>j<min (nat (self_bit_len s)) D.
                 bits ! j * 2 ^ (min (nat (self_bit_len s)) D - 1 - j))
    \<and> code < 2 ^ min (nat (self_bit_len s)) D
    \<and> code < 2 ^ nat (self_bit_len s)"
proof -
  let ?k = "min (nat (self_bit_len s)) D"
  from build_index_shapes [OF assms(1,2,3,4,5)]
  obtain mu rot where mu: "self_mean_vector s' = Some mu" and lmu: "length mu = D"
    and r: "self_r s' = Some rot" and shape: "is_matrix D ?k rot"
    and same: "self_bit_len s' = self_bit_len s"
    by blast
  from shape have lr: "length rot = D" and rows: "list_all (\<lambda>row. length row = ?k) rot"
    by (simp_all add: is_matrix_def)
  from get_small_code_shape [OF mu r assms(4) lmu lr rows assms(6)]
  obtain bits code where g: "get_small_code s' d = Inr (vector d, bits, code)"
    and bits: "bits = map (\<lambda>j. if 0 \<le> (\<Sum>i<D. (vector d ! i - mu ! i) * rot ! i ! j) then 1 else 0)
                        [0..<?k]"
    and code: "code = (\<Sum>j<?k. bits ! j * 2 ^ (?k - 1 - j))"
    and less: "code < 2 ^ ?k"
    by blast
  have le: "(2::nat) ^ ?k \<le> 2 ^ nat (self_bit_len s)"
    by (rule power_increasing) simp_all
  from less le have less': "code < 2 ^ nat (self_bit_len s)" by (rule less_le_trans)
  from same mu lmu r shape g bits code less less' show ?thesis by blast
qed

lemma run_wide:
  "build_index small_numpy (fresh_index 8 (Some 5)) 0 corpus2 = (Inr (), wide_index, 6)"
  unfolding wide_index_def
proof (rule build_index_stages)
  show "corpus2 \<noteq> []" by (simp add: corpus2_def)
  show "seed_generator small_numpy (self_rand_seed (fresh_index 8 (Some 5))) 0 = 5"
    by code_simp
  show "transpose_m (map snd (take (nat (self_bit_len (fresh_index 8 (Some 5))))
           (sorted_reverse fst (zip [2, 0] (transpose_m [[1, 0], [0, 1::real]])))))
          = [[1, 0], [0, 1]]"
    by code_simp
  show "find_itq_rotation small_numpy (dot [[- 1, 0], [1, 0]] [[1, 0], [0, 1]])
          (self_itq_iter_num (fresh_index 8 (Some 5))) 5
          = (Inr ([[1, 1], [0, 1]], [[- 1, 0], [0, 1]]), 6)"
    by code_simp
  show "dot [[1, 0], [0, 1]] [[- 1, 0], [0, 1]] = [[- 1, 0], [0, 1]]" by code_simp
  show "add_many_descriptors (self_index_factory (fresh_index 8 (Some 5)) ())
           (map (\<lambda>i. (bit_vector_to_int ([[1, 1], [0, 1]] ! i), corpus2 ! i))
              [0..<length [[1::nat, 1], [0, 1]]])
          = [(3, [descr 0 [0, 0]]), (1, [descr 1 [2, 0]])]" by code_simp
qed (rule corpus2_centred)+

lemma wide_probe: "get_small_code wide_index (descr 7 [3, 1]) = Inr ([3, 1], [0, 1], 1)"
  by code_simp

theorem get_small_code_trained_witness:
  "numpy_shapes small_numpy
   \<and> build_index small_numpy (fresh_index 8 (Some 5)) 0 corpus2 = (Inr (), wide_index, 6)
   \<and> 0 < self_bit_len (fresh_index 8 (Some 5))
   \<and> list_all (\<lambda>e. length (vector e) = 2) corpus2
   \<and> length (vector (descr 7 [3, 1])) = 2
   \<and> (\<exists>mu rot bits code.
        self_mean_vector wide_index = Some mu \<and> self_r wide_index = Some rot
      \<and> is_matrix 2 (min (nat (self_bit_len (fresh_index 8 (Some 5)))) 2) rot
      \<and> get_small_code wide_index (descr 7 [3, 1]) = Inr (vector (descr 7 [3, 1]), bits, code)
      \<and> code < 2 ^ min (nat (self_bit_len (fresh_index 8 (Some 5)))) 2)
   \<and> get_small_code wide_index (descr 7 [3, 1]) = Inr ([3, 1], [0, 1], 1)"
proof -
  have h3: "0 < self_bit_len (fresh_index 8 (Some 5))" by (simp add: fresh_index_def)
  have h4: "(0::nat) < 2" by simp
  have h5: "list_all (\<lambda>e. length (vector e) = 2) corpus2" by (simp add: corpus2_def descr_def)
  have h6: "length (vector (descr 7 [3, 1])) = 2" by (simp add: descr_def)
  from get_small_code_trained [OF small_numpy_shapes run_wide h3 h4 h5 h6]
  have "\<exists>mu rot bits code.
        self_mean_vector wide_index = Some mu \<and> self_r wide_index = Some rot
      \<and> is_matrix 2 (min (nat (self_bit_len (fresh_index 8 (Some 5)))) 2) rot
      \<and> get_small_code wide_index (descr 7 [3, 1]) = Inr (vector (descr 7 [3, 1]), bits, code)
      \<and> code < 2 ^ min (nat (self_bit_len (fresh_index 8 (Some 5)))) 2"
    by blast
  with small_numpy_shapes run_wide h3 h5 h6 wide_probe show ?thesis by blast
qed

text \<open>
  The claim as stated fails when the bit length exceeds the dimension: trained with bit
  length 8 over two-dimensional descriptors, the index holds a 2 by 2 rotation and hashes
  a descriptor to two bits.
\<close>

theorem get_small_code_bits_counterexample:
  "build_index small_numpy (fresh_index 8 (Some 5)) 0 corpus2 = (Inr (), wide_index, 6)
   \<and> self_bit_len wide_index = 8
   \<and> self_r wide_index = Some [[- 1, 0], [0, 1]]
   \<and> get_small_code wide_index (descr 7 [3, 1]) = Inr ([3, 1], [0, 1], 1)
   \<and> length [0, 1 :: nat] = 2"
  using run_wide wide_probe by (simp add: wide_index_def fresh_index_def)

section \<open>Loading\<close>

lemma install_state_complete:
  assumes "p_bit_len st = Some v1" and "p_itq_iter st = Some v2"
    and "p_rand_seed st = Some v3" and "p_mean_vector st = Some v4"
    and "p_rotation st = Some v5" and "p_code_index st = Some v6"
    and "p_distance_method st = Some v7" and "get_dist_func DF v7 = Inr f"
  shows "install_state DF s st
     = (Inr (), s\<lparr>self_bit_len := v1, self_itq_iter_num := v2, self_rand_seed := v3,
                    self_mean_vector := v4, self_r := v5, self_code_index := v6,
                    self_dist_method := v7, self_dist_func := f\<rparr>)"
  using assms by (simp add: install_state_def Let_def)

text \<open>
  C8 (as amended). \<^verbatim>\<open>load_index\<close> raises \<^verbatim>\<open>SimilarityIndexStateLoadError\<close> and leaves
  the index unchanged when the expected save file is not an existing regular file. A
  pickled state that has all seven fields and a known distance label is installed field by
  field exactly as persisted: bit length, mean vector and rotation are not compared with
  one another or with the index.
\<close>

theorem load_index_effect:
  "(\<not> osp_isfile fs (osp_join dir_path (self_save_file s)) \<longrightarrow>
       load_index DF fs s dir_path = (Inl SimilarityIndexStateLoadError, s))
   \<and> (fs (osp_join dir_path (self_save_file s)) = Some (Pickle st)
       \<and> p_bit_len st = Some v1 \<and> p_itq_iter st = Some v2 \<and> p_rand_seed st = Some v3
       \<and> p_mean_vector st = Some v4 \<and> p_rotation st = Some v5 \<and> p_code_index st = Some v6
       \<and> p_distance_method st = Some v7 \<and> get_dist_func DF v7 = Inr f \<longrightarrow>
       load_index DF fs s dir_path
         = (Inr (), s\<lparr>self_bit_len := v1, self_itq_iter_num := v2, self_rand_seed := v3,
                        self_mean_vector := v4, self_r := v5, self_code_index := v6,
                        self_dist_method := v7, self_dist_func := f\<rparr>))"
proof (intro conjI impI)
  assume "\<not> osp_isfile fs (osp_join dir_path (self_save_file s))"
  then show "load_index DF fs s dir_path = (Inl SimilarityIndexStateLoadError, s)"
    by (simp add: load_index_def Let_def)
next
  assume a: "fs (osp_join dir_path (self_save_file s)) = Some (Pickle st)
       \<and> p_bit_len st = Some v1 \<and> p_itq_iter st = Some v2 \<and> p_rand_seed st = Some v3
       \<and> p_mean_vector st = Some v4 \<and> p_rotation st = Some v5 \<and> p_code_index st = Some v6
       \<and> p_distance_method st = Some v7 \<and> get_dist_func DF v7 = Inr f"
  then have "load_index DF fs s dir_path = install_state DF s st"
    by (simp add: load_index_def Let_def osp_isfile_def)
  with a show "load_index DF fs s dir_path
         = (Inr (), s\<lparr>self_bit_len := v1, self_itq_iter_num := v2, self_rand_seed := v3,
                        self_mean_vector := v4, self_r := v5, self_code_index := v6,
                        self_dist_method := v7, self_dist_func := f\<rparr>)"
    by (simp add: install_state_complete)
qed

lemma saved_path: "osp_join ''/idx'' (self_save_file (fresh_index 1 None)) = ''/idx/itq_index.pickle''"
  by (simp add: osp_join_def fresh_index_def)

lemma other_path: "osp_join ''/tmp'' (self_save_file (fresh_index 1 None)) = ''/tmp/itq_index.pickle''"
  by (simp add: osp_join_def fresh_index_def)

lemma hik_label: "get_dist_func metrics ''hik'' = Inr hik_distance"
  by (simp add: get_dist_func_def metrics_def)

theorem load_index_effect_witness:
  "\<not> osp_isfile saved_fs (osp_join ''/tmp'' (self_save_file (fresh_index 1 None)))
   \<and> load_index metrics saved_fs (fresh_index 1 None) ''/tmp''
       = (Inl SimilarityIndexStateLoadError, fresh_index 1 None)
   \<and> saved_fs (osp_join ''/idx'' (self_save_file (fresh_index 1 None)))
       = Some (Pickle mismatched_state)
   \<and> load_index metrics saved_fs (fresh_index 1 None) ''/idx''
       = (Inr (), (fresh_index 1 None)\<lparr>self_bit_len := 8, self_itq_iter_num := 2,
            self_rand_seed := None, self_mean_vector := Some [1, 0, 0],
            self_r := Some [[1], [0]], self_code_index := Some [],
            self_dist_method := ''hik'', self_dist_func := hik_distance\<rparr>)"
proof -
  have m: "\<not> osp_isfile saved_fs (osp_join ''/tmp'' (self_save_file (fresh_index 1 None)))"
    by (simp add: other_path osp_isfile_def saved_fs_def)
  have p: "saved_fs (osp_join ''/idx'' (self_save_file (fresh_index 1 None)))
             = Some (Pickle mismatched_state)"
    by (simp add: saved_path saved_fs_def)
  have fields: "saved_fs (osp_join ''/idx'' (self_save_file (fresh_index 1 None)))
             = Some (Pickle mismatched_state)
       \<and> p_bit_len mismatched_state = Some 8 \<and> p_itq_iter mismatched_state = Some 2
       \<and> p_rand_seed mismatched_state = Some None
       \<and> p_mean_vector mismatched_state = Some (Some [1, 0, 0])
       \<and> p_rotation mismatched_state = Some (Some [[1], [0]])
       \<and> p_code_index mismatched_state = Some (Some [])
       \<and> p_distance_method mismatched_state = Some ''hik''
       \<and> get_dist_func metrics ''hik'' = Inr hik_distance"
    using p hik_label by (simp add: mismatched_state_def)
  note a = load_index_effect
             [where fs = saved_fs and dir_path = "''/tmp''" and s = "fresh_index 1 None",
              THEN conjunct1, THEN mp, OF m]
  note b = load_index_effect
             [where fs = saved_fs and dir_path = "''/idx''" and s = "fresh_index 1 None"
                and DF = metrics and st = mismatched_state,
              THEN conjunct2, THEN mp, OF fields]
  from m p a b show ?thesis by blast
qed

text \<open>
  The claim as stated fails: an index configured for one-bit codes loads a saved state
  with bit length 8, a three-dimensional mean vector and a 2 by 1 rotation without any
  error, and installs it.
\<close>

theorem load_index_mismatch_counterexample:
  "self_bit_len (fresh_index 1 None) = 1
   \<and> fst (load_index metrics saved_fs (fresh_index 1 None) ''/idx'') = Inr ()
   \<and> self_bit_len (snd (load_index metrics saved_fs (fresh_index 1 None) ''/idx'')) = 8
   \<and> self_mean_vector (snd (load_index metrics saved_fs (fresh_index 1 None) ''/idx''))
       = Some [1, 0, 0]
   \<and> self_r (snd (load_index metrics saved_fs (fresh_index 1 None) ''/idx''))
       = Some [[1], [0]]"
  by (simp add: load_index_def Let_def saved_path osp_isfile_def saved_fs_def
        install_state_def mismatched_state_def hik_label)
    (simp add: fresh_index_def)

end
